theory Spec2Isabelle
  imports Main "HOL-Library.AList"
begin

section \<open>Strings and JSON text\<close>

text \<open>
  JavaScript strings are modelled as \<^typ>\<open>string\<close>; a byte buffer (Uint8Array) is a
  \<^typ>\<open>string\<close> too. \<open>String.prototype.startsWith\<close> and \<open>endsWith\<close>:
\<close>

fun startsWith :: "string \<Rightarrow> string \<Rightarrow> bool" where
  "startsWith s [] = True"
| "startsWith [] (p # ps) = False"
| "startsWith (c # cs) (p # ps) = (c = p \<and> startsWith cs ps)"

definition endsWith :: "string \<Rightarrow> string \<Rightarrow> bool" where
  "endsWith s p = startsWith (rev s) (rev p)"

text \<open>
  Modelled from the spec: \<open>util.trimPrefix\<close>, \<open>util.trimSuffix\<close> and \<open>util.isNEString\<close>
  (shared/util.ts) are not among the sources. The spec speaks of the build-relative path
  obtained from the request path and of the specifier tried "with each recognized source
  extension": the prefix (suffix) is cut off when the string starts (ends) with it, and
  the string is returned as it is otherwise. \<open>isNEString\<close> holds of a non-empty string.
\<close>

definition trimPrefix :: "string \<Rightarrow> string \<Rightarrow> string" where
  "trimPrefix s p = (if startsWith s p then drop (length p) s else s)"

definition trimSuffix :: "string \<Rightarrow> string \<Rightarrow> string" where
  "trimSuffix s p = (if endsWith s p then take (length s - length p) s else s)"

text \<open>\<open>Array.prototype.join\<close> on strings.\<close>

fun js_join :: "string \<Rightarrow> string list \<Rightarrow> string" where
  "js_join sep [] = []"
| "js_join sep [x] = x"
| "js_join sep (x # y # ys) = x @ sep @ js_join sep (y # ys)"

definition newline :: string where
  "newline = [CHR 0x0A]"

text \<open>
  JSON values, and \<open>JSON.stringify\<close> on them. Numbers are the integers the server writes
  (status codes). A string is quoted as ECMAScript's QuoteJSONString does on bytes: the
  double quote and the backslash are escaped, a control character below 0x20 is written
  with its short escape or as \<open>\u00XX\<close>, every other character is copied.
\<close>

datatype json =
    JNull
  | JBool bool
  | JNum int
  | JStr string
  | JArr "json list"
  | JObj "(string \<times> json) list"

definition hex_digit :: "nat \<Rightarrow> char" where
  "hex_digit n = ''0123456789abcdef'' ! (n mod 16)"

definition json_escape :: "char \<Rightarrow> string" where
  "json_escape c =
     (if c = CHR 0x22 then [CHR 0x5C, CHR 0x22]
      else if c = CHR 0x5C then [CHR 0x5C, CHR 0x5C]
      else if c = CHR 0x08 then [CHR 0x5C, CHR ''b'']
      else if c = CHR 0x0C then [CHR 0x5C, CHR ''f'']
      else if c = CHR 0x0A then [CHR 0x5C, CHR ''n'']
      else if c = CHR 0x0D then [CHR 0x5C, CHR ''r'']
      else if c = CHR 0x09 then [CHR 0x5C, CHR ''t'']
      else if (of_char c :: nat) < 32
        then [CHR 0x5C, CHR ''u'', CHR ''0'', CHR ''0'',
              hex_digit (of_char c div 16), hex_digit (of_char c mod 16)]
      else [c])"

definition json_quote :: "string \<Rightarrow> string" where
  "json_quote s = [CHR 0x22] @ concat (map json_escape s) @ [CHR 0x22]"

fun show_nat :: "nat \<Rightarrow> string" where
  "show_nat n =
     (if n < 10 then [hex_digit n]
      else show_nat (n div 10) @ [hex_digit (n mod 10)])"

declare show_nat.simps [simp del]

definition show_int :: "int \<Rightarrow> string" where
  "show_int i = (if i < 0 then CHR ''-'' # show_nat (nat (- i)) else show_nat (nat i))"

fun stringify :: "json \<Rightarrow> string" where
  "stringify JNull = ''null''"
| "stringify (JBool b) = (if b then ''true'' else ''false'')"
| "stringify (JNum n) = show_int n"
| "stringify (JStr s) = json_quote s"
| "stringify (JArr xs) = ''['' @ js_join '','' (map stringify xs) @ '']''"
| "stringify (JObj fs) =
     ''{'' @ js_join '','' (map (\<lambda>kv. json_quote (fst kv) @ '':'' @ stringify (snd kv)) fs) @ ''}''"

text \<open>
  Writing a property of an object: an existing key keeps its place and takes the new
  value, a new key goes last. This is what the object literal \<open>{...data, type: v}\<close> does
  with the properties spread from \<open>data\<close>.
\<close>

definition set_prop :: "string \<Rightarrow> json \<Rightarrow> (string \<times> json) list \<Rightarrow> (string \<times> json) list" where
  "set_prop k v fs = AList.update k v fs"


section \<open>The data of a request\<close>

text \<open>
  A thrown JavaScript error: its \<open>message\<close> and its \<open>stack\<close>.
\<close>

datatype js_error = JsError (message: string) (stack: string)

text \<open>
  A value thrown by the code of a project (an API module or its handler), which can
  throw anything: \<open>null\<close> or \<open>undefined\<close>, of which no property can be read, or any
  other value, given by what its \<open>message\<close> property holds as a JSON value (\<open>None\<close> when
  the property is \<open>undefined\<close>, as it is of a thrown string or number).
\<close>

datatype js_thrown = ThrowNullish | ThrowValue "json option"

text \<open>
  Modelled from the spec: the module record (the \<open>Module\<close> type of server/app.ts is not
  among the sources). The fields are the ones \<open>Server.handle\<close> reads: the specifier, the
  compiled-output path \<open>jsFile\<close>, the optional build fingerprint \<open>hash\<close>, the source
  fingerprint \<open>sourceHash\<close>, the hook markers \<open>denoHooks\<close>, \<open>ssrPropsFn\<close> and
  \<open>ssgPathsFn\<close>, and the derived client-only variant \<open>csrCode\<close>, a property the handler
  adds to the record (\<open>None\<close>: the record has no such property).
\<close>

record module_rec =
  specifier :: string
  jsFile :: string
  hash :: "string option"
  sourceHash :: string
  denoHooks :: "string list option"
  ssrPropsFn :: "string option"
  ssgPathsFn :: bool
  csrCode :: "string option"

text \<open>
  Modelled from the spec: the request context (class \<open>Request\<close> of server/api.ts is not
  among the sources). It holds the response status (200 until set) and the response
  headers, last write wins; \<open>send\<close> finalises the response with a body and an optional
  content type, \<open>json\<close> sends the JSON text of a value.
\<close>

record request_ctx =
  resp_status :: nat
  resp_headers :: "(string \<times> string) list"

record response =
  status :: nat
  headers :: "(string \<times> string) list"
  body :: string
  contentType :: "string option"

definition new_request :: request_ctx where
  "new_request = \<lparr>resp_status = 200, resp_headers = []\<rparr>"

definition setHeader :: "string \<Rightarrow> string \<Rightarrow> request_ctx \<Rightarrow> request_ctx" where
  "setHeader k v req = req\<lparr>resp_headers := AList.update k v (resp_headers req)\<rparr>"

definition set_status :: "nat \<Rightarrow> request_ctx \<Rightarrow> request_ctx" where
  "set_status n req = req\<lparr>resp_status := n\<rparr>"

definition send :: "string \<Rightarrow> string option \<Rightarrow> request_ctx \<Rightarrow> response" where
  "send b ct req =
     \<lparr>status = resp_status req, headers = resp_headers req, body = b, contentType = ct\<rparr>"

definition send_json :: "json \<Rightarrow> request_ctx \<Rightarrow> response" where
  "send_json v req = send (stringify v) (Some ''application/json; charset=utf-8'') req"

text \<open>
  The incoming request after \<open>rewriteURL\<close> and \<open>decodeURI\<close> (framework/core/routing.ts
  is not among the sources): the decoded pathname, the query string handed to the route
  matchers (empty, or \<open>?\<close> and the parameters), the request headers as \<open>headers.get\<close>
  reads them, and whether \<open>acceptWebSocket\<close> would throw on this request.
\<close>

record http_request =
  pathname :: string
  search :: string
  req_headers :: "string \<Rightarrow> string option"
  ws_handshake :: "js_error option"

text \<open>
  What a call of an API handler does: it returns or it throws a value, and in both cases
  it has sent a response before (\<open>Some\<close>) or it has not (\<open>None\<close>).
\<close>

datatype handler_result =
    Returned "response option"
  | Threw js_thrown "response option"

text \<open>
  What the default export of an API module is: not a function, or a handler called with
  the request context, the path parameters and the query.
\<close>

datatype api_export =
    NotInvokable
  | Handler "request_ctx \<Rightarrow> (string \<times> string) list \<Rightarrow> string \<Rightarrow> handler_result"

text \<open>
  The platform and the collaborators outside the repository's server: the build version,
  the MD5 digest, \<open>TextDecoder.decode\<close>, the compiler's \<open>stripSsrCode\<close>,
  \<open>getContentType\<close>, \<open>path.join\<close>, \<open>util.atobUrl\<close>, \<open>util.cleanPath\<close>, the list
  \<open>builtinModuleExts\<close>, and the file system as the handler reads it (\<open>existsFile\<close>, the
  modification time as \<open>toUTCString\<close> prints it, the current time, the file contents),
  and the \<open>TypeError\<close> the engine throws when the \<open>message\<close> of \<open>null\<close> or \<open>undefined\<close>
  is read. None of them is among the sources; each is a parameter.
\<close>

record env =
  VERSION :: string
  md5 :: "string \<Rightarrow> string"
  textDecode :: "string \<Rightarrow> string"
  stripSsrCode :: "string \<Rightarrow> string \<Rightarrow> string"
  getContentType :: "string \<Rightarrow> string"
  joinPath :: "string list \<Rightarrow> string"
  atobUrl :: "string \<Rightarrow> string"
  cleanPath :: "string \<Rightarrow> string"
  builtinModuleExts :: "string list"
  existsFile :: "string \<Rightarrow> bool"
  mtime :: "string \<Rightarrow> string option"
  now :: string
  readFile :: "string \<Rightarrow> string"
  nullishTypeError :: js_error

text \<open>
  Calls to the compiler, recorded in the order they are made: the model's record of the
  work a request causes.
\<close>

datatype compiler_call = CompileCall string | StripCall string

text \<open>
  The application (class \<open>Application\<close> of server/app.ts is not among the sources): its
  configuration, the shared collection of module records, and its methods as parameters.
  \<open>compile\<close> throws an error or returns a module record; \<open>codeInjects\<close> is
  \<open>getCodeInjects('hmr', specifier)\<close>, \<open>None\<close> when nothing is registered;
  \<open>importModule\<close> evaluates the module of a route, which can throw any value.
\<close>

record app =
  isDev :: bool
  basePath :: string
  workingDir :: string
  buildDir :: string
  configHeaders :: "(string \<times> string) list"
  modules :: "module_rec list"
  calls :: "compiler_call list"
  isHMRable :: "string \<Rightarrow> bool"
  getModuleJS :: "module_rec \<Rightarrow> string option"
  compile :: "string \<Rightarrow> js_error + module_rec"
  codeInjects :: "string \<Rightarrow> (string \<Rightarrow> string \<Rightarrow> string) list option"
  getSSRData :: "string \<Rightarrow> json option"
  createMainJS :: string
  getAPIRoute :: "string \<Rightarrow> string \<Rightarrow> ((string \<times> string) list \<times> string \<times> string) option"
  importModule :: "string \<Rightarrow> js_thrown + api_export"
  getPageHTML :: "string \<Rightarrow> string \<Rightarrow> nat \<times> string"

text \<open>
  What the handler does with a request: it upgrades the connection, it sends a response,
  or it returns with no response sent (an API handler that returns without responding).
\<close>

datatype outcome = Upgraded | Sent response | Unanswered

section \<open>The request handler: build-output modules\<close>

text \<open>
  \<open>app.findModule(pred)\<close>: the first module record the predicate holds of, with its place
  in the collection (the record is a shared object: the handler later writes to it).
\<close>

fun findModule :: "(module_rec \<Rightarrow> bool) \<Rightarrow> module_rec list \<Rightarrow> (nat \<times> module_rec) option" where
  "findModule P [] = None"
| "findModule P (m # ms) =
     (if P m then Some (0, m)
      else (case findModule P ms of None \<Rightarrow> None | Some (i, x) \<Rightarrow> Some (Suc i, x)))"

text \<open>
  Modelled from the spec: \<open>app.compile\<close> (server/app.ts is not among the sources) does
  "compile it and register/replace its module record". The record with the same
  specifier is replaced, a new specifier is added; the result is the record's place.
\<close>

fun register :: "module_rec \<Rightarrow> module_rec list \<Rightarrow> nat \<times> module_rec list" where
  "register m [] = (0, [m])"
| "register m (x # xs) =
     (if specifier x = specifier m then (0, m # xs)
      else (case register m xs of (i, ys) \<Rightarrow> (Suc i, x # ys)))"

text \<open>
  The loop of lines 110 to 116: the extensions are tried in order, and the loop leaves at
  the first specifier that names a file of the working directory.
\<close>

fun probe_exts :: "env \<Rightarrow> app \<Rightarrow> string \<Rightarrow> string list \<Rightarrow> string option" where
  "probe_exts e a relPath [] = None"
| "probe_exts e a relPath (ext # exts) =
     (let sepcifier = trimSuffix relPath ''.js'' @ ext
      in if existsFile e (joinPath e [workingDir a, sepcifier]) then Some sepcifier
         else probe_exts e a relPath exts)"

definition probe_list :: "env \<Rightarrow> string list" where
  "probe_list e = map (\<lambda>ext. ''.'' @ ext) (builtinModuleExts e) @ [[]]"

text \<open>
  Lines 108 to 117: the module of a build-relative path. The result is a thrown error,
  no module, or the place of the module record; the application is returned with the
  compiled record registered.
\<close>

definition resolve_module :: "env \<Rightarrow> app \<Rightarrow> string \<Rightarrow> (js_error + nat option) \<times> app" where
  "resolve_module e a relPath =
     (case findModule (\<lambda>m. jsFile m = relPath) (modules a) of
        Some (i, m) \<Rightarrow> (Inr (Some i), a)
      | None \<Rightarrow>
          if isDev a then
            (case probe_exts e a relPath (probe_list e) of
               None \<Rightarrow> (Inr None, a)
             | Some sepcifier \<Rightarrow>
                 (let a' = a\<lparr>calls := calls a @ [CompileCall sepcifier]\<rparr>
                  in case compile a sepcifier of
                       Inl err \<Rightarrow> (Inl err, a')
                     | Inr m \<Rightarrow>
                         (case register m (modules a) of
                            (i, ms) \<Rightarrow> (Inr (Some i), a'\<lparr>modules := ms\<rparr>))))
          else (Inr None, a))"

text \<open>\<open>module.hash || module.sourceHash\<close>: the build hash unless it is missing or empty.\<close>

definition fingerprint :: "module_rec \<Rightarrow> string" where
  "fingerprint m =
     (case hash m of
        None \<Rightarrow> sourceHash m
      | Some h \<Rightarrow> if h \<noteq> [] then h else sourceHash m)"

text \<open>The validator of line 122: the digest of the version followed by the fingerprint.\<close>

definition etag_of :: "env \<Rightarrow> module_rec \<Rightarrow> string" where
  "etag_of e m = md5 e (VERSION e @ fingerprint m)"

text \<open>\<open>module.denoHooks?.length || module.ssrPropsFn || module.ssgPathsFn\<close>, as a truth value.\<close>

definition has_server_hooks :: "module_rec \<Rightarrow> bool" where
  "has_server_hooks m =
     ((case denoHooks m of None \<Rightarrow> False | Some hs \<Rightarrow> hs \<noteq> [])
      \<or> (case ssrPropsFn m of None \<Rightarrow> False | Some f \<Rightarrow> f \<noteq> [])
      \<or> ssgPathsFn m)"

text \<open>Lines 141 to 144: each transform is given the code the previous one returned.\<close>

definition apply_injects :: "app \<Rightarrow> string \<Rightarrow> string \<Rightarrow> string" where
  "apply_injects a sp code =
     (case codeInjects a sp of
        None \<Rightarrow> code
      | Some transforms \<Rightarrow> fold (\<lambda>transform c. transform sp c) transforms code)"

text \<open>Lines 145 to 151: the hot-context template.\<close>

definition hot_wrap :: "string \<Rightarrow> string \<Rightarrow> string" where
  "hot_wrap sp code =
     js_join newline
       [''import.meta.hot = window.$createHotContext('' @ json_quote sp @ '');'',
        [],
        code,
        [],
        ''import.meta.hot.accept();'']"

definition js_content_type :: string where
  "js_content_type = ''application/javascript; charset=utf-8''"

text \<open>
  Lines 130 to 140: the code before injection. A module with server hooks is served its
  \<open>csrCode\<close> property when the record has one; otherwise the compiler strips the code and
  the result is written to the record in the collection.
\<close>

definition client_code :: "env \<Rightarrow> app \<Rightarrow> nat \<Rightarrow> string \<Rightarrow> string \<times> app" where
  "client_code e a i content =
     (let m = modules a ! i;
          code = textDecode e content
      in if has_server_hooks m then
           (case csrCode m of
              Some c \<Rightarrow> (c, a)
            | None \<Rightarrow>
                (let c = stripSsrCode e (specifier m) code
                 in (c, a\<lparr>modules := (modules a)[i := m\<lparr>csrCode := Some c\<rparr>],
                          calls := calls a @ [StripCall (specifier m)]\<rparr>)))
         else (code, a))"

text \<open>
  The same lines in the two parts the \<open>await\<close> of line 135 separates. The first part
  runs up to the call of the compiler: its result is the code to serve (\<open>Inl\<close>: the
  module has no server hooks, or the record has a \<open>csrCode\<close>), or the code the compiler
  returns, not yet written to the record (\<open>Inr\<close>). The second part, after the \<open>await\<close>,
  writes that code to the record as it then is (line 136). Between the two parts the
  handler of another request can run.
\<close>

definition variant_begin :: "env \<Rightarrow> app \<Rightarrow> nat \<Rightarrow> string \<Rightarrow> (string + string) \<times> app" where
  "variant_begin e a i content =
     (let m = modules a ! i;
          code = textDecode e content
      in if has_server_hooks m then
           (case csrCode m of
              Some c \<Rightarrow> (Inl c, a)
            | None \<Rightarrow>
                (Inr (stripSsrCode e (specifier m) code),
                 a\<lparr>calls := calls a @ [StripCall (specifier m)]\<rparr>))
         else (Inl code, a))"

definition variant_end :: "app \<Rightarrow> nat \<Rightarrow> string + string \<Rightarrow> string \<times> app" where
  "variant_end a i r =
     (case r of
        Inl c \<Rightarrow> (c, a)
      | Inr c \<Rightarrow> (c, a\<lparr>modules := (modules a)[i := (modules a ! i)\<lparr>csrCode := Some c\<rparr>]\<rparr>))"


text \<open>
  Lines 118 to 157, for the module at place \<open>i\<close>: \<open>None\<close> when the handler falls through
  to the files of the build directory.
\<close>

definition serve_module ::
  "env \<Rightarrow> app \<Rightarrow> http_request \<Rightarrow> request_ctx \<Rightarrow> nat \<Rightarrow> response option \<times> app" where
  "serve_module e a rq req i =
     (let m = modules a ! i
      in case getModuleJS a m of
           None \<Rightarrow> (None, a)
         | Some content \<Rightarrow>
             (let etag = etag_of e m
              in if Some etag = req_headers rq ''If-None-Match''
                 then (Some (send [] None (set_status 304 req)), a)
                 else
                   (let req' = setHeader ''ETag'' etag req
                    in if isDev a \<and> isHMRable a (specifier m) then
                         (case client_code e a i content of
                            (code, a') \<Rightarrow>
                              (Some (send (hot_wrap (specifier m) (apply_injects a (specifier m) code))
                                       (Some js_content_type) req'), a'))
                       else (Some (send content (Some js_content_type) req'), a))))"

section \<open>The request handler: files, APIs and pages\<close>

text \<open>
  Lines 163 to 175 and 185 to 195: a file is served with its modification time as the
  validator, the current time when the file has none.
\<close>

definition serve_file :: "env \<Rightarrow> http_request \<Rightarrow> request_ctx \<Rightarrow> string \<Rightarrow> response" where
  "serve_file e rq req filePath =
     (let lastModified = (case mtime e filePath of Some t \<Rightarrow> t | None \<Rightarrow> now e)
      in if Some lastModified = req_headers rq ''If-Modified-Since''
         then send [] None (set_status 304 req)
         else send (readFile e filePath) (Some (getContentType e filePath))
                (setHeader ''Last-Modified'' lastModified req))"

text \<open>Lines 161 to 179: the file of the build directory, or the plain 404.\<close>

definition serve_build :: "env \<Rightarrow> app \<Rightarrow> http_request \<Rightarrow> request_ctx \<Rightarrow> string \<Rightarrow> response" where
  "serve_build e a rq req relPath =
     (let filePath = joinPath e [buildDir a, relPath]
      in if existsFile e filePath then serve_file e rq req filePath
         else send ''not found'' None (set_status 404 req))"

text \<open>Lines 229 to 239: the page of the outermost catch.\<close>

definition error_page :: "js_error \<Rightarrow> request_ctx \<Rightarrow> response" where
  "error_page err req =
     send (js_join newline
            [''<!DOCTYPE html>'',
             ''<title>Server Error</title>'',
             ''<h1>Error: '' @ message err @ ''</h1>'',
             ''<p><pre>'' @ stack err @ ''</pre></p>''])
       (Some ''text/html; charset=utf-8'') (set_status 500 req)"

definition json_error :: "nat \<Rightarrow> string \<Rightarrow> json" where
  "json_error st msg = JObj [(''status'', JNum (int st)), (''message'', JStr msg)]"

text \<open>
  Lines 213 to 215: the catch around the API handler, on a request not yet answered.
  \<open>req.status(500)\<close> is called first; then the envelope is built, which reads
  \<open>err.message\<close>. Of \<open>null\<close> or \<open>undefined\<close> that read throws a \<open>TypeError\<close> inside the
  catch, which reaches the outermost catch of lines 229 to 239: the error page is sent.
  Of any other value the read gives the property, and \<open>JSON.stringify\<close> leaves a
  property that is \<open>undefined\<close> out of the envelope.
\<close>

definition api_catch :: "env \<Rightarrow> js_thrown \<Rightarrow> request_ctx \<Rightarrow> response" where
  "api_catch e thrown req =
     (case thrown of
        ThrowNullish \<Rightarrow> error_page (nullishTypeError e) (set_status 500 req)
      | ThrowValue m \<Rightarrow>
          send_json
            (JObj ((''status'', JNum 500) # (case m of None \<Rightarrow> [] | Some v \<Rightarrow> [(''message'', v)])))
            (set_status 500 req))"

text \<open>
  Modelled from the spec: a write to a request that has been answered, "finalizing is
  terminal, no further writes permitted" (class \<open>Request\<close> of server/api.ts is not among
  the sources): the later write has no effect and the response sent stands.
\<close>

definition write_finished :: "response \<Rightarrow> response \<Rightarrow> response" where
  "write_finished sent later = sent"

text \<open>
  Lines 199 to 221: the API routes. When the handler throws after it has responded, the
  catch writes to a request that has been answered.
\<close>

definition serve_api :: "env \<Rightarrow> app \<Rightarrow> http_request \<Rightarrow> request_ctx \<Rightarrow> outcome" where
  "serve_api e a rq req =
     (case getAPIRoute a (pathname rq) (search rq) of
        None \<Rightarrow> Sent (send_json (json_error 404 ''not found'') (set_status 404 req))
      | Some (params, query, module) \<Rightarrow>
          (case importModule a module of
             Inl thrown \<Rightarrow> Sent (api_catch e thrown req)
           | Inr NotInvokable \<Rightarrow>
               Sent (send_json (json_error 500 ''bad api handler'') (set_status 500 req))
           | Inr (Handler h) \<Rightarrow>
               (case h req params query of
                  Returned None \<Rightarrow> Unanswered
                | Returned (Some resp) \<Rightarrow> Sent resp
                | Threw thrown None \<Rightarrow> Sent (api_catch e thrown req)
                | Threw thrown (Some resp) \<Rightarrow>
                    Sent (write_finished resp (api_catch e thrown req)))))"

text \<open>Lines 89 to 180: the paths under \<open>/_aleph/\<close>.\<close>

definition serve_dist :: "env \<Rightarrow> app \<Rightarrow> http_request \<Rightarrow> request_ctx \<Rightarrow> response \<times> app" where
  "serve_dist e a rq req =
     (if startsWith (pathname rq) ''/_aleph/data/'' \<and> endsWith (pathname rq) ''.json'' then
        (let path = atobUrl e (trimSuffix (trimPrefix (pathname rq) ''/_aleph/data/'') ''.json'')
         in case getSSRData a path of
              None \<Rightarrow>
                (send ''null'' (Some ''application/json; charset=utf-8'') (set_status 404 req), a)
            | Some data \<Rightarrow>
                (send (stringify data) (Some ''application/json; charset=utf-8'') req, a))
      else
        (let relPath = trimPrefix (pathname rq) ''/_aleph''
         in if relPath = ''/main.js'' then (send (createMainJS a) (Some js_content_type) req, a)
            else if endsWith relPath ''.js'' then
              (case resolve_module e a relPath of
                 (Inl err, a') \<Rightarrow> (error_page err req, a')
               | (Inr None, a') \<Rightarrow> (serve_build e a' rq req relPath, a')
               | (Inr (Some i), a') \<Rightarrow>
                   (case serve_module e a' rq req i of
                      (Some resp, a'') \<Rightarrow> (resp, a'')
                    | (None, a'') \<Rightarrow> (serve_build e a'' rq req relPath, a'')))
            else (serve_build e a rq req relPath, a)))"

text \<open>
  Lines 32 to 46: the request context with the configured headers, and \<open>Cache-Control\<close>
  in development mode.
\<close>

definition init_request :: "app \<Rightarrow> request_ctx" where
  "init_request a =
     (let req = fold (\<lambda>kv r. setHeader (fst kv) (snd kv) r) (configHeaders a) new_request
      in if isDev a then setHeader ''Cache-Control'' ''max-age=0'' req else req)"

text \<open>
  \<open>Server.handle\<close>. The channel a request to \<open>/_hmr\<close> opens is modelled in the next
  section. Of the collaborators, \<open>compile\<close> and \<open>acceptWebSocket\<close> can throw an error,
  \<open>importModule\<close> and the API handler can throw any value; the others return.
\<close>

definition handle :: "env \<Rightarrow> app \<Rightarrow> http_request \<Rightarrow> outcome \<times> app" where
  "handle e a rq =
     (let req = init_request a
      in if pathname rq = ''/_hmr'' then
           (case ws_handshake rq of
              Some err \<Rightarrow> (Sent (error_page err req), a)
            | None \<Rightarrow> (Upgraded, a))
         else if startsWith (pathname rq) ''/_aleph/'' then
           (case serve_dist e a rq req of (resp, a') \<Rightarrow> (Sent resp, a'))
         else
           (let filePath = joinPath e [workingDir a, ''public'', pathname rq]
            in if existsFile e filePath then (Sent (serve_file e rq req filePath), a)
               else if startsWith (pathname rq) ''/api/'' then (serve_api e a rq req, a)
               else
                 (case getPageHTML a (pathname rq) (search rq) of
                    (st, html) \<Rightarrow>
                      (Sent (send html (Some ''text/html; charset=utf-8'') (set_status st req)), a))))"

section \<open>The HMR channel\<close>

text \<open>
  The three callbacks the handler registers on the watcher of a channel: the forwarder of
  \<open>add\<close> (line 54), the handler of \<open>remove\<close> (lines 55 to 58) and the forwarder of
  \<open>modify-<specifier>\<close> (lines 68 to 75), which holds the module's specifier.
\<close>

datatype listener = OnAdd | OnRemove | OnModify string

text \<open>
  A channel: the listeners of its watcher by event name, the text frames sent on the
  socket so far (oldest first), and whether the receive loop has ended and the watcher
  has been removed from the application (line 83).
\<close>

record channel =
  listeners :: "string \<Rightarrow> listener list"
  outbox :: "string list"
  closed :: bool

text \<open>
  Modelled from the spec: the file watcher (\<open>app.createFSWatcher\<close> and its event emitter
  are not among the sources), "a file-watcher exposing \<open>on(event, handler)\<close> /
  \<open>removeAllListeners(event)\<close> semantics". \<open>on\<close> adds the handler after the handlers the
  event name has, \<open>removeAllListeners\<close> leaves the event name with none, and an emitted
  event calls the handlers of its name in the order they were added.
\<close>

definition watcher_on :: "string \<Rightarrow> listener \<Rightarrow> channel \<Rightarrow> channel" where
  "watcher_on name l ch = ch\<lparr>listeners := (listeners ch)(name := listeners ch name @ [l])\<rparr>"

definition removeAllListeners :: "string \<Rightarrow> channel \<Rightarrow> channel" where
  "removeAllListeners name ch = ch\<lparr>listeners := (listeners ch)(name := [])\<rparr>"

definition socket_send :: "string \<Rightarrow> channel \<Rightarrow> channel" where
  "socket_send frame ch = ch\<lparr>outbox := outbox ch @ [frame]\<rparr>"

text \<open>
  Modelled from the spec: the events of the watcher, "\<open>add\<close> (new module discovered)",
  "\<open>remove\<close> (module deleted)" with the specifier, and the change of a module, emitted
  under the name \<open>modify-<specifier>\<close> with a payload object.
\<close>

datatype watcher_event =
    EvAdd "(string \<times> json) list"
  | EvRemove string
  | EvModify string "(string \<times> json) list"

fun event_name :: "watcher_event \<Rightarrow> string" where
  "event_name (EvAdd md) = ''add''"
| "event_name (EvRemove sp) = ''remove''"
| "event_name (EvModify sp payload) = ''modify-'' @ sp"

text \<open>
  Modelled from the spec: \<open>trimBuiltinModuleExts\<close> (framework/core/module.ts is not among
  the sources), "the specifier with its recognized module extension trimmed": the first
  extension of the list the specifier ends with is cut off with its dot.
\<close>

fun trim_exts :: "string list \<Rightarrow> string \<Rightarrow> string" where
  "trim_exts [] url = url"
| "trim_exts (ext # exts) url =
     (if endsWith url (''.'' @ ext) then take (length url - (length ext + 1)) url
      else trim_exts exts url)"

definition trimBuiltinModuleExts :: "env \<Rightarrow> string \<Rightarrow> string" where
  "trimBuiltinModuleExts e url = trim_exts (builtinModuleExts e) url"

text \<open>Line 73: the address the client fetches the changed module from.\<close>

definition update_url :: "env \<Rightarrow> string \<Rightarrow> string \<Rightarrow> string" where
  "update_url e bp sp = cleanPath e (bp @ ''/_aleph/'' @ trimBuiltinModuleExts e sp @ ''.js'')"

definition update_message :: "env \<Rightarrow> string \<Rightarrow> string \<Rightarrow> (string \<times> json) list \<Rightarrow> json" where
  "update_message e bp sp payload =
     JObj (set_prop ''updateUrl'' (JStr (update_url e bp sp))
            (set_prop ''specifier'' (JStr sp)
              (set_prop ''type'' (JStr ''update'') payload)))"

definition remove_message :: "string \<Rightarrow> json" where
  "remove_message sp = JObj [(''type'', JStr ''remove''), (''specifier'', JStr sp)]"

definition add_message :: "(string \<times> json) list \<Rightarrow> json" where
  "add_message md = JObj (set_prop ''type'' (JStr ''add'') md)"

text \<open>
  A callback called with an event. A callback is registered under the name of its own
  kind of event only, so the last equation is never reached on a channel the handler
  has built.
\<close>

fun run_listener :: "env \<Rightarrow> string \<Rightarrow> listener \<Rightarrow> watcher_event \<Rightarrow> channel \<Rightarrow> channel" where
  "run_listener e bp OnAdd (EvAdd md) ch = socket_send (stringify (add_message md)) ch"
| "run_listener e bp OnRemove (EvRemove sp) ch =
     socket_send (stringify (remove_message sp)) (removeAllListeners (''modify-'' @ sp) ch)"
| "run_listener e bp (OnModify sp) (EvModify sp' payload) ch =
     socket_send (stringify (update_message e bp sp payload)) ch"
| "run_listener e bp l ev ch = ch"

definition emit :: "env \<Rightarrow> string \<Rightarrow> watcher_event \<Rightarrow> channel \<Rightarrow> channel" where
  "emit e bp ev ch = fold (\<lambda>l c. run_listener e bp l ev c) (listeners ch (event_name ev)) ch"

text \<open>
  Modelled from the spec: \<open>app.getModule\<close> (server/app.ts is not among the sources), "look
  up the module by specifier".
\<close>

definition getModule :: "app \<Rightarrow> string \<Rightarrow> module_rec option" where
  "getModule a sp = find (\<lambda>m. specifier m = sp) (modules a)"

text \<open>
  Reading a property of a parsed message: \<open>None\<close> is \<open>undefined\<close>. Reading a property of
  \<open>null\<close> throws inside the \<open>try\<close> of line 62, which has the effect of \<open>undefined\<close>: the
  message is dropped.
\<close>

fun get_prop :: "json \<Rightarrow> string \<Rightarrow> json option" where
  "get_prop (JObj fs) k = map_of fs k"
| "get_prop v k = None"

text \<open>Line 64: the specifier of a \<open>hotAccept\<close> message.\<close>

definition accepted_specifier :: "json \<Rightarrow> string option" where
  "accepted_specifier data =
     (if get_prop data ''type'' = Some (JStr ''hotAccept'') then
        (case get_prop data ''specifier'' of
           Some (JStr sp) \<Rightarrow> if sp \<noteq> [] then Some sp else None
         | _ \<Rightarrow> None)
      else None)"

text \<open>
  Lines 63 to 66: the module a text frame subscribes to, if any. \<open>parse\<close> is
  \<open>JSON.parse\<close>, \<open>None\<close> when it throws.
\<close>

definition accepted_module :: "app \<Rightarrow> (string \<Rightarrow> json option) \<Rightarrow> string \<Rightarrow> module_rec option" where
  "accepted_module a parse msg =
     (case parse msg of
        None \<Rightarrow> None
      | Some data \<Rightarrow>
          (case accepted_specifier data of
             None \<Rightarrow> None
           | Some sp \<Rightarrow> getModule a sp))"

text \<open>Lines 61 to 78: a non-empty text frame.\<close>

definition on_text :: "app \<Rightarrow> (string \<Rightarrow> json option) \<Rightarrow> string \<Rightarrow> channel \<Rightarrow> channel" where
  "on_text a parse msg ch =
     (case accepted_module a parse msg of
        None \<Rightarrow> ch
      | Some md \<Rightarrow> watcher_on (''modify-'' @ specifier md) (OnModify (specifier md)) ch)"

datatype ws_event = WsText string | WsClose | WsOther

datatype hmr_input = Frame ws_event | Watch watcher_event

text \<open>Lines 53 to 59: the channel when the connection is accepted.\<close>

definition hmr_open :: channel where
  "hmr_open =
     \<lparr>listeners = (\<lambda>name. [])(''add'' := [OnAdd], ''remove'' := [OnRemove]),
      outbox = [],
      closed = False\<rparr>"

text \<open>
  One step of an open channel: a frame read by the loop of lines 60 to 82, or an event the
  watcher emits. A closed channel reads no frame, and its watcher is no longer the
  application's.
\<close>

fun hmr_step ::
  "env \<Rightarrow> app \<Rightarrow> (string \<Rightarrow> json option) \<Rightarrow> hmr_input \<Rightarrow> channel \<Rightarrow> channel" where
  "hmr_step e a parse (Frame (WsText msg)) ch =
     (if closed ch then ch else if msg \<noteq> [] then on_text a parse msg ch else ch)"
| "hmr_step e a parse (Frame WsClose) ch = ch\<lparr>closed := True\<rparr>"
| "hmr_step e a parse (Frame WsOther) ch = ch"
| "hmr_step e a parse (Watch ev) ch =
     (if closed ch then ch else emit e (basePath a) ev ch)"

definition hmr_run ::
  "env \<Rightarrow> app \<Rightarrow> (string \<Rightarrow> json option) \<Rightarrow> hmr_input list \<Rightarrow> channel \<Rightarrow> channel" where
  "hmr_run e a parse inps ch = fold (hmr_step e a parse) inps ch"

section \<open>Channels reached from an accepted connection\<close>

text \<open>
  What holds of every channel the handler builds: the two callbacks of the connection
  stay where they were registered, and every listener of a \<open>modify-\<close> event is the
  forwarder for the specifier of that name.
\<close>

definition channel_inv :: "channel \<Rightarrow> bool" where
  "channel_inv ch \<longleftrightarrow>
     listeners ch ''add'' = [OnAdd] \<and> listeners ch ''remove'' = [OnRemove]
     \<and> (\<forall>sp. \<forall>l \<in> set (listeners ch (''modify-'' @ sp)). l = OnModify sp)"


section \<open>A concrete project\<close>

text \<open>
  A small project on which the model is evaluated: a platform whose paths are cleaned by
  dropping empty segments, whose digest is the identity (an injective stand-in for MD5),
  and an application in development mode with three module records: one with a
  data-fetching marker, one without hooks, and one whose compiled content is missing.
\<close>

primrec split_path :: "string \<Rightarrow> string list" where
  "split_path [] = [[]]"
| "split_path (c # cs) =
     (if c = CHR ''/'' then [] # split_path cs
      else (case split_path cs of [] \<Rightarrow> [[c]] | x # xs \<Rightarrow> (c # x) # xs))"

definition clean_path :: "string \<Rightarrow> string" where
  "clean_path p = CHR ''/'' # js_join ''/'' (filter (\<lambda>s. s \<noteq> []) (split_path p))"

definition ex_files :: "string list" where
  "ex_files =
     [''/app/pages/about.tsx'',
      ''/app/public/logo.png'',
      ''/app/public/api/notes.txt'',
      ''/app/.aleph/development/deps/react.js'']"

definition ex_env :: env where
  "ex_env =
     \<lparr>VERSION = ''0.3.0'',
      md5 = (\<lambda>s. s),
      textDecode = (\<lambda>b. b),
      stripSsrCode = (\<lambda>sp code. takeWhile (\<lambda>c. c \<noteq> CHR '';'') code),
      getContentType =
        (\<lambda>p. if endsWith p ''.js'' then ''application/javascript; charset=utf-8''
             else if endsWith p ''.png'' then ''image/png''
             else ''text/plain; charset=utf-8''),
      joinPath = (\<lambda>ps. clean_path (js_join ''/'' ps)),
      atobUrl = (\<lambda>s. s),
      cleanPath = clean_path,
      builtinModuleExts = [''tsx'', ''jsx'', ''ts'', ''js'', ''mjs''],
      existsFile = (\<lambda>p. p \<in> set ex_files),
      mtime = (\<lambda>p. if p = ''/app/public/logo.png'' then Some ''Mon, 02 Nov 2026 10:00:00 GMT''
                   else None),
      now = ''Tue, 03 Nov 2026 09:00:00 GMT'',
      readFile = (\<lambda>p. ''bytes of '' @ p),
      nullishTypeError = JsError ''Cannot read properties of null'' ''TypeError at catch''\<rparr>"

definition ex_index :: module_rec where
  "ex_index =
     \<lparr>specifier = ''/pages/index.tsx'', jsFile = ''/pages/index.js'', hash = Some ''b1946a'',
      sourceHash = ''3b5d5c'', denoHooks = None, ssrPropsFn = Some ''ssr'', ssgPathsFn = False,
      csrCode = None\<rparr>"

definition ex_logo :: module_rec where
  "ex_logo =
     \<lparr>specifier = ''/components/logo.tsx'', jsFile = ''/components/logo.js'', hash = None,
      sourceHash = ''77aa01'', denoHooks = Some [], ssrPropsFn = None, ssgPathsFn = False,
      csrCode = None\<rparr>"

definition ex_icon :: module_rec where
  "ex_icon =
     \<lparr>specifier = ''/components/icon.tsx'', jsFile = ''/components/icon.js'', hash = None,
      sourceHash = ''5e0c11'', denoHooks = None, ssrPropsFn = None, ssgPathsFn = False,
      csrCode = None\<rparr>"

definition ex_app :: app where
  "ex_app =
     \<lparr>isDev = True,
      basePath = ''/'',
      workingDir = ''/app'',
      buildDir = ''/app/.aleph/development'',
      configHeaders = [],
      modules = [ex_index, ex_logo, ex_icon],
      calls = [],
      isHMRable = (\<lambda>sp. endsWith sp ''.tsx''),
      getModuleJS =
        (\<lambda>m. if specifier m = ''/pages/index.tsx'' then Some ''export default Page;export const ssr = 1''
             else if specifier m = ''/components/logo.tsx'' then Some ''export default Logo''
             else None),
      compile = (\<lambda>sp. Inl (JsError ''unexpected token'' ''at compile'')),
      codeInjects = (\<lambda>sp. Some [\<lambda>sp c. c @ '';'']),
      getSSRData = (\<lambda>p. None),
      createMainJS = ''bootstrap()'',
      getAPIRoute = (\<lambda>p s. if p = ''/api/hello'' then Some ([], [], ''/api/hello.ts'') else None),
      importModule =
        (\<lambda>md. Inr (Handler (\<lambda>req params query. Threw (ThrowValue (Some (JStr ''boom''))) None))),
      getPageHTML = (\<lambda>p s. (200, ''<html></html>''))\<rparr>"

text \<open>The same application when every module has compiled content of length zero.\<close>

definition ex_app_blank :: app where
  "ex_app_blank = ex_app\<lparr>getModuleJS := (\<lambda>m. Some [])\<rparr>"


definition ex_request :: "string \<Rightarrow> http_request" where
  "ex_request p =
     \<lparr>pathname = p, search = [], req_headers = (\<lambda>name. None), ws_handshake = None\<rparr>"

text \<open>The only text \<open>JSON.parse\<close> is asked to read in the evaluations.\<close>

definition ex_accept :: string where
  \<open>ex_accept = ''{"type":"hotAccept","specifier":"/pages/index.tsx"}''\<close>

definition ex_parse :: "string \<Rightarrow> json option" where
  "ex_parse msg =
     (if msg = ex_accept
      then Some (JObj [(''type'', JStr ''hotAccept''), (''specifier'', JStr ''/pages/index.tsx'')])
      else None)"

section \<open>Paths and module records\<close>

lemma startsWith_iff: "startsWith s p \<longleftrightarrow> (\<exists>u. s = p @ u)"
  by (induction s p rule: startsWith.induct) auto

lemma endsWith_iff: "endsWith s p \<longleftrightarrow> (\<exists>u. s = u @ p)"
proof -
  have "endsWith s p \<longleftrightarrow> (\<exists>v. rev s = rev p @ v)"
    by (simp add: endsWith_def startsWith_iff)
  also have "\<dots> \<longleftrightarrow> (\<exists>u. s = u @ p)"
  proof
    assume "\<exists>v. rev s = rev p @ v"
    then obtain v where "rev s = rev p @ v" ..
    then have "s = rev v @ p" by (metis rev_append rev_rev_ident)
    then show "\<exists>u. s = u @ p" ..
  next
    assume "\<exists>u. s = u @ p"
    then obtain u where "s = u @ p" ..
    then have "rev s = rev p @ rev u" by simp
    then show "\<exists>v. rev s = rev p @ v" ..
  qed
  finally show ?thesis .
qed

lemma js_not_json: "endsWith s ''.js'' \<Longrightarrow> \<not> endsWith (p @ s) ''.json''"
proof
  assume a: "endsWith s ''.js''" and b: "endsWith (p @ s) ''.json''"
  from a obtain u where u: "s = u @ ''.js''" by (auto simp: endsWith_iff)
  from b obtain v where v: "p @ s = v @ ''.json''" by (auto simp: endsWith_iff)
  have "last (p @ s) = CHR ''s''" using u by simp
  moreover have "last (p @ s) = CHR ''n''" using v by simp
  ultimately show False by simp
qed

lemma resp_status_init: "resp_status (init_request a) = 200"
proof -
  have "resp_status (fold (\<lambda>kv r. setHeader (fst kv) (snd kv) r) hs r) = resp_status r" for hs r
    by (induction hs arbitrary: r) (simp_all add: setHeader_def)
  then show ?thesis by (simp add: init_request_def Let_def new_request_def setHeader_def)
qed

lemma map_of_setHeader: "map_of (resp_headers (setHeader k v req)) k = Some v"
  by (simp add: setHeader_def update_conv')

lemma handle_js_path:
  assumes "pathname rq = ''/_aleph'' @ relPath"
    and "startsWith relPath ''/''"
    and "endsWith relPath ''.js''"
    and "relPath \<noteq> ''/main.js''"
  shows "handle e a rq =
    (case resolve_module e a relPath of
       (Inl err, a') \<Rightarrow> (Sent (error_page err (init_request a)), a')
     | (Inr None, a') \<Rightarrow> (Sent (serve_build e a' rq (init_request a) relPath), a')
     | (Inr (Some i), a') \<Rightarrow>
         (case serve_module e a' rq (init_request a) i of
            (Some resp, a'') \<Rightarrow> (Sent resp, a'')
          | (None, a'') \<Rightarrow> (Sent (serve_build e a'' rq (init_request a) relPath), a'')))"
proof -
  from assms(2) obtain rest where rest: "relPath = CHR ''/'' # rest"
    by (auto simp: startsWith_iff)
  have nj: "\<not> endsWith (pathname rq) ''.json''"
    using js_not_json [OF assms(3), of "''/_aleph''"] assms(1) by simp
  have tp: "trimPrefix (pathname rq) ''/_aleph'' = relPath"
    using assms(1) by (simp add: trimPrefix_def)
  have sw: "startsWith (pathname rq) ''/_aleph/''"
    using assms(1) rest by simp
  have nh: "pathname rq \<noteq> ''/_hmr''"
    using assms(1) by simp
  have sd: "serve_dist e a rq (init_request a) =
    (case resolve_module e a relPath of
       (Inl err, a') \<Rightarrow> (error_page err (init_request a), a')
     | (Inr None, a') \<Rightarrow> (serve_build e a' rq (init_request a) relPath, a')
     | (Inr (Some i), a') \<Rightarrow>
         (case serve_module e a' rq (init_request a) i of
            (Some resp, a'') \<Rightarrow> (resp, a'')
          | (None, a'') \<Rightarrow> (serve_build e a'' rq (init_request a) relPath, a'')))"
    unfolding serve_dist_def using nj tp assms(3,4) by (simp add: Let_def)
  have hd: "handle e a rq = (case serve_dist e a rq (init_request a) of (resp, a') \<Rightarrow> (Sent resp, a'))"
    unfolding handle_def using sw nh by (simp add: Let_def)
  show ?thesis unfolding hd sd
    by (simp split: prod.splits sum.splits option.splits)
qed

lemma findModule_Some:
  "findModule P ms = Some (i, m) \<Longrightarrow> i < length ms \<and> ms ! i = m \<and> P m"
proof (induction ms arbitrary: i)
  case Nil
  then show ?case by simp
next
  case (Cons x xs)
  show ?case
  proof (cases "P x")
    case True
    with Cons.prems show ?thesis by simp
  next
    case False
    with Cons.prems obtain j where j: "findModule P xs = Some (j, m)" and i: "i = Suc j"
      by (auto split: option.splits)
    from Cons.IH [OF j] i show ?thesis by simp
  qed
qed


lemma register_index:
  "register m ms = (i, ms') \<Longrightarrow> i < length ms' \<and> ms' ! i = m"
proof (induction ms arbitrary: i ms')
  case Nil
  then show ?case by auto
next
  case (Cons x xs)
  show ?case
  proof (cases "specifier x = specifier m")
    case True
    with Cons.prems show ?thesis by auto
  next
    case False
    obtain j ys where r: "register m xs = (j, ys)" by (cases "register m xs")
    with Cons.prems False have "i = Suc j" "ms' = x # ys" by auto
    with Cons.IH [OF r] show ?thesis by simp
  qed
qed

lemma resolve_module_found:
  "findModule (\<lambda>m. jsFile m = relPath) (modules a) = Some (i, m) \<Longrightarrow>
   resolve_module e a relPath = (Inr (Some i), a)"
  by (simp add: resolve_module_def)

lemma resolve_module_config:
  assumes "resolve_module e a relPath = (r, a')"
  shows "isDev a' = isDev a \<and> isHMRable a' = isHMRable a \<and> getModuleJS a' = getModuleJS a
    \<and> codeInjects a' = codeInjects a \<and> buildDir a' = buildDir a"
  using assms unfolding resolve_module_def
  by (auto simp: Let_def split: option.splits if_splits sum.splits prod.splits)

lemma resolve_module_index:
  assumes "resolve_module e a relPath = (Inr (Some i), a')"
  shows "i < length (modules a')"
proof (cases "findModule (\<lambda>m. jsFile m = relPath) (modules a)")
  case (Some im)
  then obtain j m where "findModule (\<lambda>m. jsFile m = relPath) (modules a) = Some (j, m)"
    by (cases im) auto
  with assms findModule_Some [OF this] show ?thesis
    by (simp add: resolve_module_def)
next
  case None
  with assms obtain sp m where m: "compile a sp = Inr m"
    and r: "register m (modules a) = (i, modules a')"
    by (auto simp: resolve_module_def Let_def
        split: if_splits option.splits sum.splits prod.splits)
  from register_index [OF r] show ?thesis by simp
qed

lemma serve_module_304:
  assumes "getModuleJS a (modules a ! i) = Some content"
    and "req_headers rq ''If-None-Match'' = Some (etag_of e (modules a ! i))"
  shows "serve_module e a rq req i =
    (Some \<lparr>status = 304, headers = resp_headers req, body = [], contentType = None\<rparr>, a)"
  using assms by (simp add: serve_module_def Let_def send_def set_status_def)

lemma serve_module_200:
  assumes "getModuleJS a (modules a ! i) = Some content"
    and "req_headers rq ''If-None-Match'' \<noteq> Some (etag_of e (modules a ! i))"
  shows "serve_module e a rq req i =
    (if isDev a \<and> isHMRable a (specifier (modules a ! i)) then
       (Some (send (hot_wrap (specifier (modules a ! i))
                 (apply_injects a (specifier (modules a ! i)) (fst (client_code e a i content))))
               (Some js_content_type) (setHeader ''ETag'' (etag_of e (modules a ! i)) req)),
        snd (client_code e a i content))
     else (Some (send content (Some js_content_type)
                  (setHeader ''ETag'' (etag_of e (modules a ! i)) req)), a))"
proof -
  have ne: "Some (etag_of e (modules a ! i)) \<noteq> req_headers rq ''If-None-Match''"
    using assms(2) by auto
  show ?thesis
    using assms(1) ne by (simp add: serve_module_def Let_def split: prod.splits)
qed




lemma probe_exts_None:
  "probe_exts e a relPath exts = None \<longleftrightarrow>
   (\<forall>ext \<in> set exts. \<not> existsFile e (joinPath e [workingDir a, trimSuffix relPath ''.js'' @ ext]))"
  by (induction exts) (simp_all add: Let_def)

lemma probe_exts_Some:
  "probe_exts e a relPath exts = Some sp \<Longrightarrow>
   \<exists>pre ext post. exts = pre @ ext # post \<and> sp = trimSuffix relPath ''.js'' @ ext
     \<and> existsFile e (joinPath e [workingDir a, sp])
     \<and> (\<forall>x \<in> set pre. \<not> existsFile e (joinPath e [workingDir a, trimSuffix relPath ''.js'' @ x]))"
proof (induction exts)
  case Nil
  then show ?case by simp
next
  case (Cons x xs)
  show ?case
  proof (cases "existsFile e (joinPath e [workingDir a, trimSuffix relPath ''.js'' @ x])")
    case True
    with Cons.prems have "sp = trimSuffix relPath ''.js'' @ x" by (simp add: Let_def)
    with True show ?thesis by (intro exI [of _ "[]"] exI [of _ x] exI [of _ xs]) simp
  next
    case False
    with Cons.prems have "probe_exts e a relPath xs = Some sp" by (simp add: Let_def)
    from Cons.IH [OF this] obtain pre ext post where
      p: "xs = pre @ ext # post" "sp = trimSuffix relPath ''.js'' @ ext"
         "existsFile e (joinPath e [workingDir a, sp])"
         "\<forall>y \<in> set pre. \<not> existsFile e (joinPath e [workingDir a, trimSuffix relPath ''.js'' @ y])"
      by blast
    with False show ?thesis
      by (intro exI [of _ "x # pre"] exI [of _ ext] exI [of _ post]) simp
  qed
qed


text \<open>The two parts of lines 130 to 140, run one after the other, are those lines.\<close>

lemma client_code_phases:
  "client_code e a i content =
     (case variant_begin e a i content of (r, a1) \<Rightarrow> variant_end a1 i r)"
  by (simp add: client_code_def variant_begin_def variant_end_def Let_def split: option.splits)

lemma fixed_length_digest_collides:
  fixes digest :: "string \<Rightarrow> string"
  assumes "\<forall>s. length (digest s) = n"
  shows "\<exists>v v'. v \<noteq> v' \<and> digest (v @ fp) = digest (v' @ fp)"
proof (rule ccontr)
  assume "\<not> (\<exists>v v'. v \<noteq> v' \<and> digest (v @ fp) = digest (v' @ fp))"
  then have i: "inj (\<lambda>v. digest (v @ fp))"
    by (auto simp: inj_def)
  have "range (\<lambda>v. digest (v @ fp)) \<subseteq> {xs. set xs \<subseteq> UNIV \<and> length xs = n}"
    using assms by auto
  moreover have "finite {xs :: string. set xs \<subseteq> UNIV \<and> length xs = n}"
    by (rule finite_lists_length_eq) simp
  ultimately have "finite (range (\<lambda>v. digest (v @ fp)))"
    by (rule finite_subset)
  from finite_imageD [OF this i] have "finite (UNIV :: string set)" .
  then show False by (simp add: infinite_UNIV_listI)
qed

section \<open>Listeners of a channel\<close>

lemma getModule_specifier: "getModule a sp = Some md \<Longrightarrow> specifier md = sp"
  by (auto simp: getModule_def find_Some_iff)

lemma channel_inv_open: "channel_inv hmr_open"
  by (simp add: channel_inv_def hmr_open_def)

lemma listeners_socket_send [simp]: "listeners (socket_send f ch) = listeners ch"
  by (simp add: socket_send_def)

lemma closed_socket_send [simp]: "closed (socket_send f ch) = closed ch"
  by (simp add: socket_send_def)

lemma outbox_socket_send [simp]: "outbox (socket_send f ch) = outbox ch @ [f]"
  by (simp add: socket_send_def)

lemma listeners_run_listener:
  "listeners (run_listener e bp l ev ch) n = listeners ch n
   \<or> listeners (run_listener e bp l ev ch) n = []"
  by (cases l; cases ev) (simp_all add: removeAllListeners_def)

lemma listeners_run_listener_fixed:
  "n = ''add'' \<or> n = ''remove'' \<Longrightarrow> listeners (run_listener e bp l ev ch) n = listeners ch n"
  by (cases l; cases ev) (auto simp: removeAllListeners_def)

lemma closed_run_listener [simp]: "closed (run_listener e bp l ev ch) = closed ch"
  by (cases l; cases ev) (simp_all add: removeAllListeners_def)

lemma channel_inv_run_listener:
  assumes "channel_inv ch"
  shows "channel_inv (run_listener e bp l ev ch)"
proof -
  have m: "\<forall>x \<in> set (listeners (run_listener e bp l ev ch) (''modify-'' @ sp)). x = OnModify sp" for sp
    using listeners_run_listener [of e bp l ev ch "''modify-'' @ sp"] assms
    by (auto simp: channel_inv_def)
  show ?thesis
    using assms m by (simp add: channel_inv_def listeners_run_listener_fixed)
qed

lemma channel_inv_fold:
  "channel_inv ch \<Longrightarrow> channel_inv (fold (\<lambda>l c. run_listener e bp l ev c) ls ch)"
  by (induction ls arbitrary: ch) (simp_all add: channel_inv_run_listener)

lemma channel_inv_on_text:
  assumes "channel_inv ch"
  shows "channel_inv (on_text a parse msg ch)"
  using assms
  by (auto simp: on_text_def channel_inv_def watcher_on_def split: option.splits)

lemma channel_inv_step:
  assumes "channel_inv ch"
  shows "channel_inv (hmr_step e a parse inp ch)"
proof (cases inp)
  case (Frame f)
  then show ?thesis using assms
    by (cases f) (simp_all add: channel_inv_on_text, simp add: channel_inv_def)
next
  case (Watch ev)
  then show ?thesis using assms by (simp add: emit_def channel_inv_fold)
qed

lemma channel_inv_run:
  "channel_inv ch \<Longrightarrow> channel_inv (hmr_run e a parse inps ch)"
  unfolding hmr_run_def by (induction inps arbitrary: ch) (simp_all add: channel_inv_step)

lemma fold_modify_listeners:
  "fold (\<lambda>l c. run_listener e bp l (EvModify sp' p) c) (replicate n (OnModify sp)) ch
   = ch\<lparr>outbox := outbox ch @ replicate n (stringify (update_message e bp sp p))\<rparr>"
proof (induction n arbitrary: ch)
  case 0
  then show ?case by simp
next
  case (Suc n)
  show ?case
    by (simp add: Suc.IH socket_send_def replicate_append_same del: fold_replicate)
qed

lemma emit_modify:
  assumes "\<forall>l \<in> set (listeners ch (''modify-'' @ sp)). l = OnModify sp"
  shows "emit e bp (EvModify sp p) ch =
    ch\<lparr>outbox := outbox ch @ replicate (length (listeners ch (''modify-'' @ sp)))
                               (stringify (update_message e bp sp p))\<rparr>"
proof -
  have "listeners ch (''modify-'' @ sp) = replicate (length (listeners ch (''modify-'' @ sp))) (OnModify sp)"
    using assms by (simp add: replicate_length_same)
  then have "emit e bp (EvModify sp p) ch =
      fold (\<lambda>l c. run_listener e bp l (EvModify sp p) c)
        (replicate (length (listeners ch (''modify-'' @ sp))) (OnModify sp)) ch"
    by (simp add: emit_def del: fold_replicate)
  then show ?thesis by (simp only: fold_modify_listeners)
qed






lemma fire_each_listener:
  "\<not> closed ch \<Longrightarrow> \<forall>l \<in> set (listeners ch (''modify-'' @ sp)). l = OnModify sp \<Longrightarrow>
   hmr_run e a parse (map (\<lambda>p. Watch (EvModify sp p)) ps) ch
   = ch\<lparr>outbox := outbox ch @
        concat (map (\<lambda>p. replicate (length (listeners ch (''modify-'' @ sp)))
                         (stringify (update_message e (basePath a) sp p))) ps)\<rparr>"
proof (induction ps arbitrary: ch)
  case Nil
  then show ?case by (simp add: hmr_run_def)
next
  case (Cons p ps)
  let ?n = "length (listeners ch (''modify-'' @ sp))"
  let ?c = "ch\<lparr>outbox := outbox ch @ replicate ?n (stringify (update_message e (basePath a) sp p))\<rparr>"
  have s: "hmr_step e a parse (Watch (EvModify sp p)) ch = ?c"
    using Cons.prems emit_modify [of ch sp e "basePath a" p] by simp
  have "hmr_run e a parse (map (\<lambda>p. Watch (EvModify sp p)) ps) ?c
    = ?c\<lparr>outbox := outbox ?c @
        concat (map (\<lambda>p. replicate (length (listeners ?c (''modify-'' @ sp)))
                         (stringify (update_message e (basePath a) sp p))) ps)\<rparr>"
    by (rule Cons.IH) (use Cons.prems in simp_all)
  then show ?case
    using s by (simp add: hmr_run_def)
qed

section \<open>The concrete project, evaluated\<close>

lemmas ex_defs = ex_app_def ex_env_def ex_index_def ex_logo_def ex_icon_def ex_request_def ex_files_def

lemmas ex_eval = ex_defs handle_def init_request_def new_request_def setHeader_def serve_dist_def
      endsWith_def trimPrefix_def trimSuffix_def resolve_module_def serve_module_def etag_of_def
      fingerprint_def probe_list_def clean_path_def serve_build_def serve_file_def set_status_def
      client_code_def has_server_hooks_def apply_injects_def hot_wrap_def send_def error_page_def
      js_content_type_def json_quote_def json_escape_def newline_def Let_def

lemmas hmr_eval = hmr_run_def hmr_open_def on_text_def accepted_module_def accepted_specifier_def
  getModule_def ex_parse_def ex_accept_def ex_app_def ex_env_def ex_index_def ex_logo_def
  ex_icon_def watcher_on_def emit_def socket_send_def removeAllListeners_def update_message_def
  remove_message_def add_message_def set_prop_def update_url_def trimBuiltinModuleExts_def
  endsWith_def clean_path_def json_quote_def json_escape_def

lemma ex_init: "init_request ex_app = \<lparr>resp_status = 200, resp_headers = [(''Cache-Control'', ''max-age=0'')]\<rparr>"
  by (simp add: init_request_def ex_app_def new_request_def setHeader_def)

lemma ex_resolve_logo: "resolve_module ex_env ex_app ''/components/logo.js'' = (Inr (Some 1), ex_app)"
  by (simp add: resolve_module_def ex_app_def ex_logo_def ex_index_def ex_icon_def)


lemma ex_find_icon:
  "findModule (\<lambda>m. jsFile m = ''/components/icon.js'') (modules ex_app) = Some (2, ex_icon)"
  by (simp add: ex_app_def ex_logo_def ex_index_def ex_icon_def)

lemma ex_accept_facts:
  "ex_accept \<noteq> []"
  "ex_parse ex_accept = Some (JObj [(''type'', JStr ''hotAccept''), (''specifier'', JStr ''/pages/index.tsx'')])"
  "get_prop (JObj [(''type'', JStr ''hotAccept''), (''specifier'', JStr ''/pages/index.tsx'')]) ''type''
     = Some (JStr ''hotAccept'')"
  "get_prop (JObj [(''type'', JStr ''hotAccept''), (''specifier'', JStr ''/pages/index.tsx'')]) ''specifier''
     = Some (JStr ''/pages/index.tsx'')"
  "''/pages/index.tsx'' \<noteq> []"
  "getModule ex_app ''/pages/index.tsx'' = Some ex_index"
  by (simp_all add: ex_parse_def ex_accept_def getModule_def ex_app_def ex_index_def)

lemma ex_update_text:
  \<open>stringify (update_message ex_env (basePath ex_app) ''/pages/index.tsx'' []) =
    ''{"type":"update","specifier":"/pages/index.tsx","updateUrl":"/_aleph/pages/index.js"}''\<close>
  by (simp add: hmr_eval)

section \<open>The claims\<close>

subsection \<open>Code served to an HMR-eligible module without server hooks\<close>

text \<open>
  Claim C1, as the code has it. In development mode a compiled module that is
  HMR-eligible and declares no server-only hooks is not served unmodified: when the
  validator does not match, the body is the hot-context template around the compiled
  output after the registered \<open>hmr\<close> transforms. Only the stripping of server code is
  left out for such a module: the application is returned as the module resolution left
  it, with no call to the compiler's strip and no client-only variant written.
\<close>

theorem C1_hmr_module_is_wrapped:
  assumes "pathname rq = ''/_aleph'' @ relPath"
    and "startsWith relPath ''/''"
    and "endsWith relPath ''.js''"
    and "relPath \<noteq> ''/main.js''"
    and "resolve_module e a relPath = (Inr (Some i), a')"
    and "m = modules a' ! i"
    and "getModuleJS a' m = Some content"
    and "req_headers rq ''If-None-Match'' \<noteq> Some (etag_of e m)"
    and "isDev a"
    and "isHMRable a (specifier m)"
    and "\<not> has_server_hooks m"
  shows "handle e a rq =
    (Sent (send (hot_wrap (specifier m) (apply_injects a (specifier m) (textDecode e content)))
             (Some js_content_type)
             (setHeader ''ETag'' (etag_of e m) (init_request a))), a')"
proof -
  note cfg = resolve_module_config [OF assms(5)]
  have h: "handle e a rq =
      (case serve_module e a' rq (init_request a) i of
         (Some resp, a'') \<Rightarrow> (Sent resp, a'')
       | (None, a'') \<Rightarrow> (Sent (serve_build e a'' rq (init_request a) relPath), a''))"
    using handle_js_path [OF assms(1-4), of e a] assms(5) by simp
  have c: "getModuleJS a' (modules a' ! i) = Some content"
    using assms(6,7) by simp
  have ne: "req_headers rq ''If-None-Match'' \<noteq> Some (etag_of e (modules a' ! i))"
    using assms(6,8) by simp
  have cc: "client_code e a' i content = (textDecode e content, a')"
    using assms(6,11) by (simp add: client_code_def Let_def)
  have ai: "apply_injects a' = apply_injects a"
    using cfg by (simp add: apply_injects_def fun_eq_iff)
  show ?thesis
    unfolding h serve_module_200 [OF c ne, of "init_request a"]
    using cfg assms(6,9,10) cc ai by simp
qed

text \<open>The theorem at the module \<open>/components/logo.tsx\<close> of the concrete project.\<close>

theorem C1_hmr_module_is_wrapped_witness:
  "handle ex_env ex_app (ex_request ''/_aleph/components/logo.js'') =
     (Sent \<lparr>status = 200,
            headers = [(''Cache-Control'', ''max-age=0''), (''ETag'', ''0.3.077aa01'')],
            body = hot_wrap ''/components/logo.tsx'' ''export default Logo;'',
            contentType = Some ''application/javascript; charset=utf-8''\<rparr>, ex_app)"
proof -
  have h1: "pathname (ex_request ''/_aleph/components/logo.js'') = ''/_aleph'' @ ''/components/logo.js''"
    by (simp add: ex_request_def)
  have h2: "startsWith ''/components/logo.js'' ''/''" by simp
  have h3: "endsWith ''/components/logo.js'' ''.js''" by (simp add: endsWith_def)
  have h4: "''/components/logo.js'' \<noteq> ''/main.js''" by simp
  have h6: "ex_logo = modules ex_app ! 1" by (simp add: ex_app_def)
  have h7: "getModuleJS ex_app ex_logo = Some ''export default Logo''"
    by (simp add: ex_app_def ex_logo_def)
  have h8: "req_headers (ex_request ''/_aleph/components/logo.js'') ''If-None-Match''
      \<noteq> Some (etag_of ex_env ex_logo)"
    by (simp add: ex_request_def)
  have h9: "isDev ex_app" by (simp add: ex_app_def)
  have h10: "isHMRable ex_app (specifier ex_logo)"
    by (simp add: ex_app_def ex_logo_def endsWith_def)
  have h11: "\<not> has_server_hooks ex_logo"
    by (simp add: has_server_hooks_def ex_logo_def)
  have sp: "specifier ex_logo = ''/components/logo.tsx''" by (simp add: ex_logo_def)
  have et: "etag_of ex_env ex_logo = ''0.3.077aa01''"
    by (simp add: etag_of_def fingerprint_def ex_env_def ex_logo_def)
  have ai: "apply_injects ex_app ''/components/logo.tsx'' (textDecode ex_env ''export default Logo'')
      = ''export default Logo;''"
    by (simp add: apply_injects_def ex_app_def ex_env_def)
  from C1_hmr_module_is_wrapped [OF h1 h2 h3 h4 ex_resolve_logo h6 h7 h8 h9 h10 h11]
  show ?thesis
    by (simp add: sp et ai ex_init send_def setHeader_def js_content_type_def)
qed

text \<open>
  Claim C1 as stated fails: the module \<open>/components/logo.tsx\<close> is HMR-eligible, has no
  server-only hooks, and its served body is not its compiled output.
\<close>

theorem C1_counterexample:
  \<open>isDev ex_app \<and> isHMRable ex_app (specifier ex_logo) \<and> \<not> has_server_hooks ex_logo
   \<and> getModuleJS ex_app ex_logo = Some ''export default Logo''
   \<and> fst (handle ex_env ex_app (ex_request ''/_aleph/components/logo.js'')) =
       Sent \<lparr>status = 200,
             headers = [(''Cache-Control'', ''max-age=0''), (''ETag'', ''0.3.077aa01'')],
             body = ''import.meta.hot = window.$createHotContext("/components/logo.tsx");''
                    @ newline @ newline @ ''export default Logo;'' @ newline @ newline
                    @ ''import.meta.hot.accept();'',
             contentType = Some ''application/javascript; charset=utf-8''\<rparr>
   \<and> ''import.meta.hot = window.$createHotContext("/components/logo.tsx");''
         @ newline @ newline @ ''export default Logo;'' @ newline @ newline
         @ ''import.meta.hot.accept();'' \<noteq> ''export default Logo''\<close>
  by (simp add: ex_defs handle_def init_request_def new_request_def setHeader_def serve_dist_def
      endsWith_def trimPrefix_def resolve_module_def serve_module_def etag_of_def fingerprint_def
      client_code_def has_server_hooks_def apply_injects_def hot_wrap_def send_def
      js_content_type_def json_quote_def json_escape_def newline_def Let_def)

subsection \<open>Repeated subscriptions\<close>

text \<open>
  Claim C2, as the code has it. On an open channel reached from the accepted connection
  by any inputs, a \<open>hotAccept\<close> message for a specifier with a registered module adds
  one listener after the listeners the specifier already has on that channel: nothing is
  replaced. A modify event for the specifier then sends one update message for each
  listener, that is one more than the number of listeners before the message.
\<close>

theorem C2_subscriptions_accumulate:
  assumes "ch = hmr_run e a parse inps hmr_open"
    and "\<not> closed ch"
    and "msg \<noteq> []"
    and "parse msg = Some data"
    and "get_prop data ''type'' = Some (JStr ''hotAccept'')"
    and "get_prop data ''specifier'' = Some (JStr sp)"
    and "sp \<noteq> []"
    and "getModule a sp = Some md"
    and "ch' = hmr_step e a parse (Frame (WsText msg)) ch"
  shows "listeners ch' (''modify-'' @ sp) = listeners ch (''modify-'' @ sp) @ [OnModify sp]
    \<and> (\<forall>payload.
          outbox (hmr_step e a parse (Watch (EvModify sp payload)) ch')
            = outbox ch @ replicate (Suc (length (listeners ch (''modify-'' @ sp))))
                            (stringify (update_message e (basePath a) sp payload)))"
proof -
  have inv: "channel_inv ch"
    unfolding assms(1) by (rule channel_inv_run [OF channel_inv_open])
  have am: "accepted_module a parse msg = Some md"
    using assms(4-8) by (simp add: accepted_module_def accepted_specifier_def)
  have sm: "specifier md = sp" by (rule getModule_specifier [OF assms(8)])
  have c: "ch' = watcher_on (''modify-'' @ sp) (OnModify sp) ch"
    using assms(2,3,9) am sm by (simp add: on_text_def)
  have p1: "listeners ch' (''modify-'' @ sp) = listeners ch (''modify-'' @ sp) @ [OnModify sp]"
    unfolding c by (simp add: watcher_on_def)
  have o: "\<not> closed ch'" "outbox ch' = outbox ch"
    unfolding c using assms(2) by (simp_all add: watcher_on_def)
  have inv': "channel_inv ch'"
    unfolding assms(9) by (rule channel_inv_step [OF inv])
  then have al: "\<forall>l \<in> set (listeners ch' (''modify-'' @ sp)). l = OnModify sp"
    by (simp add: channel_inv_def)
  have p2: "outbox (hmr_step e a parse (Watch (EvModify sp payload)) ch')
            = outbox ch @ replicate (Suc (length (listeners ch (''modify-'' @ sp))))
                            (stringify (update_message e (basePath a) sp payload))"
    for payload
    using o emit_modify [OF al, of e "basePath a" payload] p1 by simp
  from p1 p2 show ?thesis by blast
qed

text \<open>The theorem on a channel that has accepted \<open>/pages/index.tsx\<close> once before.\<close>

theorem C2_subscriptions_accumulate_witness:
  \<open>outbox (hmr_step ex_env ex_app ex_parse (Watch (EvModify ''/pages/index.tsx'' []))
      (hmr_step ex_env ex_app ex_parse (Frame (WsText ex_accept))
        (hmr_run ex_env ex_app ex_parse [Frame (WsText ex_accept)] hmr_open))) =
    [''{"type":"update","specifier":"/pages/index.tsx","updateUrl":"/_aleph/pages/index.js"}'',
     ''{"type":"update","specifier":"/pages/index.tsx","updateUrl":"/_aleph/pages/index.js"}'']\<close>
proof -
  let ?ch = "hmr_run ex_env ex_app ex_parse [Frame (WsText ex_accept)] hmr_open"
  have o: "\<not> closed ?ch" by (simp add: hmr_eval)
  have l: "listeners ?ch (''modify-'' @ ''/pages/index.tsx'') = [OnModify ''/pages/index.tsx'']"
    by (simp add: hmr_eval)
  have b: "outbox ?ch = []" by (simp add: hmr_eval)
  from C2_subscriptions_accumulate [where parse = ex_parse and msg = ex_accept and e = ex_env,
      OF refl o ex_accept_facts refl, THEN conjunct2, rule_format, of "[]"]
  show ?thesis by (simp only: l b ex_update_text) simp
qed

text \<open>
  Claim C2 as stated fails: after two \<open>hotAccept\<close> messages for the same specifier on
  one channel, a single modify event sends two update messages.
\<close>

theorem C2_counterexample:
  \<open>outbox (hmr_run ex_env ex_app ex_parse
      [Frame (WsText ex_accept), Frame (WsText ex_accept),
       Watch (EvModify ''/pages/index.tsx'' [])] hmr_open) =
    [''{"type":"update","specifier":"/pages/index.tsx","updateUrl":"/_aleph/pages/index.js"}'',
     ''{"type":"update","specifier":"/pages/index.tsx","updateUrl":"/_aleph/pages/index.js"}'']\<close>
  by (simp add: hmr_eval)

subsection \<open>Compilation on demand\<close>

text \<open>
  Claim C3, as the code has it. In development mode, for a build-output JS path with no
  matching module record, the candidates are the path without \<open>.js\<close> followed by each
  recognized extension in the order of the list and then by nothing; the first candidate
  that is a file of the working directory is taken (none when no candidate is a file) and
  compiled, and its record registered. When no candidate is a file, the handler falls
  through to the build directory: it serves the file of that path when there is one, and
  responds 404 with the body \<open>not found\<close> only when there is none. When the compiler
  throws, the response is the 500 error page of the outermost catch.
\<close>

theorem C3_probe_then_fall_through:
  assumes "pathname rq = ''/_aleph'' @ relPath"
    and "startsWith relPath ''/''"
    and "endsWith relPath ''.js''"
    and "relPath \<noteq> ''/main.js''"
    and "isDev a"
    and "findModule (\<lambda>m. jsFile m = relPath) (modules a) = None"
    and "base = trimSuffix relPath ''.js''"
    and "exts = map (\<lambda>ext. ''.'' @ ext) (builtinModuleExts e) @ [[]]"
    and "found = probe_exts e a relPath exts"
  shows "(found = None \<longleftrightarrow>
           (\<forall>ext \<in> set exts. \<not> existsFile e (joinPath e [workingDir a, base @ ext])))
    \<and> (\<forall>sp. found = Some sp \<longrightarrow>
          (\<exists>pre ext post. exts = pre @ ext # post
             \<and> sp = base @ ext \<and> existsFile e (joinPath e [workingDir a, sp])
             \<and> (\<forall>x \<in> set pre. \<not> existsFile e (joinPath e [workingDir a, base @ x]))))
    \<and> (found = None \<longrightarrow>
          handle e a rq =
            (Sent (if existsFile e (joinPath e [buildDir a, relPath])
                   then serve_file e rq (init_request a) (joinPath e [buildDir a, relPath])
                   else \<lparr>status = 404, headers = resp_headers (init_request a),
                          body = ''not found'', contentType = None\<rparr>), a))
    \<and> (\<forall>sp err. found = Some sp \<longrightarrow> compile a sp = Inl err \<longrightarrow>
          handle e a rq =
            (Sent (error_page err (init_request a)), a\<lparr>calls := calls a @ [CompileCall sp]\<rparr>))
    \<and> (\<forall>sp m. found = Some sp \<longrightarrow> compile a sp = Inr m \<longrightarrow>
          resolve_module e a relPath =
            (Inr (Some (fst (register m (modules a)))),
             a\<lparr>calls := calls a @ [CompileCall sp], modules := snd (register m (modules a))\<rparr>))"
proof -
  note h = handle_js_path [OF assms(1-4), of e a]
  have f: "found = probe_exts e a relPath (probe_list e)"
    unfolding assms(9) assms(8) probe_list_def ..
  have p1: "found = None \<longleftrightarrow>
      (\<forall>ext \<in> set exts. \<not> existsFile e (joinPath e [workingDir a, base @ ext]))"
    unfolding assms(7,9) by (rule probe_exts_None)
  have p2: "\<exists>pre ext post. exts = pre @ ext # post
             \<and> sp = base @ ext \<and> existsFile e (joinPath e [workingDir a, sp])
             \<and> (\<forall>x \<in> set pre. \<not> existsFile e (joinPath e [workingDir a, base @ x]))"
    if "found = Some sp" for sp
    unfolding assms(7) by (rule probe_exts_Some) (use that assms(9) in simp)
  have p3: "handle e a rq =
            (Sent (if existsFile e (joinPath e [buildDir a, relPath])
                   then serve_file e rq (init_request a) (joinPath e [buildDir a, relPath])
                   else \<lparr>status = 404, headers = resp_headers (init_request a),
                          body = ''not found'', contentType = None\<rparr>), a)"
    if "found = None"
  proof -
    have "resolve_module e a relPath = (Inr None, a)"
      using that f assms(5,6) by (simp add: resolve_module_def)
    then show ?thesis
      using h by (simp add: serve_build_def Let_def send_def set_status_def)
  qed
  have p4: "handle e a rq =
            (Sent (error_page err (init_request a)), a\<lparr>calls := calls a @ [CompileCall sp]\<rparr>)"
    if "found = Some sp" "compile a sp = Inl err" for sp err
  proof -
    have "resolve_module e a relPath = (Inl err, a\<lparr>calls := calls a @ [CompileCall sp]\<rparr>)"
      using that f assms(5,6) by (simp add: resolve_module_def Let_def)
    then show ?thesis using h by simp
  qed
  have p5: "resolve_module e a relPath =
            (Inr (Some (fst (register m (modules a)))),
             a\<lparr>calls := calls a @ [CompileCall sp], modules := snd (register m (modules a))\<rparr>)"
    if "found = Some sp" "compile a sp = Inr m" for sp m
    using that f assms(5,6) by (simp add: resolve_module_def Let_def split: prod.splits)
  from p1 p2 p3 p4 p5 show ?thesis by blast
qed

text \<open>The theorem at \<open>/pages/about.js\<close>, whose source the compiler of the project rejects.\<close>

theorem C3_probe_then_fall_through_witness:
  "handle ex_env ex_app (ex_request ''/_aleph/pages/about.js'') =
     (Sent (error_page (JsError ''unexpected token'' ''at compile'')
              \<lparr>resp_status = 200, resp_headers = [(''Cache-Control'', ''max-age=0'')]\<rparr>),
      ex_app\<lparr>calls := [CompileCall ''/pages/about.tsx'']\<rparr>)"
proof -
  have h1: "pathname (ex_request ''/_aleph/pages/about.js'') = ''/_aleph'' @ ''/pages/about.js''"
    by (simp add: ex_request_def)
  have h2: "startsWith ''/pages/about.js'' ''/''" by simp
  have h3: "endsWith ''/pages/about.js'' ''.js''" by (simp add: endsWith_def)
  have h4: "''/pages/about.js'' \<noteq> ''/main.js''" by simp
  have h5: "isDev ex_app" by (simp add: ex_app_def)
  have h6: "findModule (\<lambda>m. jsFile m = ''/pages/about.js'') (modules ex_app) = None"
    by (simp add: ex_app_def ex_index_def ex_logo_def ex_icon_def)
  have h7: "''/pages/about'' = trimSuffix ''/pages/about.js'' ''.js''"
    by (simp add: trimSuffix_def endsWith_def)
  have h8: "[''.tsx'', ''.jsx'', ''.ts'', ''.js'', ''.mjs'', []] =
      map (\<lambda>ext. ''.'' @ ext) (builtinModuleExts ex_env) @ [[]]"
    by (simp add: ex_env_def)
  have h9: "Some ''/pages/about.tsx'' =
      probe_exts ex_env ex_app ''/pages/about.js'' [''.tsx'', ''.jsx'', ''.ts'', ''.js'', ''.mjs'', []]"
    by (simp add: ex_env_def ex_app_def ex_files_def clean_path_def trimSuffix_def endsWith_def)
  have c: "compile ex_app ''/pages/about.tsx'' = Inl (JsError ''unexpected token'' ''at compile'')"
    by (simp add: ex_app_def)
  have cs: "calls ex_app = []" by (simp add: ex_app_def)
  note c3 = C3_probe_then_fall_through [OF h1 h2 h3 h4 h5 h6 h7 h8 h9]
  from c3 [THEN conjunct2, THEN conjunct2, THEN conjunct2, THEN conjunct1, rule_format, OF refl c]
  have "handle ex_env ex_app (ex_request ''/_aleph/pages/about.js'') =
      (Sent (error_page (JsError ''unexpected token'' ''at compile'') (init_request ex_app)),
       ex_app\<lparr>calls := calls ex_app @ [CompileCall ''/pages/about.tsx'']\<rparr>)" .
  then show ?thesis by (simp add: ex_init cs)
qed

text \<open>
  Claim C3 as stated fails twice: with no candidate on disk the file of the build
  directory is served with status 200, and a failed compilation is answered with status
  500.
\<close>

theorem C3_counterexample:
  "isDev ex_app
   \<and> findModule (\<lambda>m. jsFile m = ''/deps/react.js'') (modules ex_app) = None
   \<and> probe_exts ex_env ex_app ''/deps/react.js'' (probe_list ex_env) = None
   \<and> fst (handle ex_env ex_app (ex_request ''/_aleph/deps/react.js'')) =
       Sent \<lparr>status = 200,
             headers = [(''Cache-Control'', ''max-age=0''),
                        (''Last-Modified'', ''Tue, 03 Nov 2026 09:00:00 GMT'')],
             body = ''bytes of /app/.aleph/development/deps/react.js'',
             contentType = Some ''application/javascript; charset=utf-8''\<rparr>
   \<and> findModule (\<lambda>m. jsFile m = ''/pages/about.js'') (modules ex_app) = None
   \<and> probe_exts ex_env ex_app ''/pages/about.js'' (probe_list ex_env) = Some ''/pages/about.tsx''
   \<and> compile ex_app ''/pages/about.tsx'' = Inl (JsError ''unexpected token'' ''at compile'')
   \<and> fst (handle ex_env ex_app (ex_request ''/_aleph/pages/about.js'')) =
       Sent \<lparr>status = 500,
             headers = [(''Cache-Control'', ''max-age=0'')],
             body = ''<!DOCTYPE html>'' @ newline @ ''<title>Server Error</title>'' @ newline
                    @ ''<h1>Error: unexpected token</h1>'' @ newline
                    @ ''<p><pre>at compile</pre></p>'',
             contentType = Some ''text/html; charset=utf-8''\<rparr>"
  by (simp add: ex_eval)

subsection \<open>The validator of a compiled module\<close>

text \<open>
  Claim C4, as the code has it. For a request that resolves to a module record, the
  handler first asks for the compiled content (line 120), and only with content at hand
  does it compute and compare the validator. Without content it falls through to the
  build directory, whatever \<open>If-None-Match\<close> says. With content, the validator is the
  digest of the build version followed by the build hash of the module when it has a
  non-empty one, else by its source hash; when \<open>If-None-Match\<close> equals it the response
  is 304 with an empty body and the application is as the module resolution left it
  (nothing that follows the comparison is run); otherwise the response has status 200,
  its \<open>ETag\<close> header is the validator and the body is delivered. Another build version
  gives the digest another input and the validator is the digest of that input; for a
  digest of fixed length, some two versions have the same validator for the module.
\<close>

theorem C4_validator_after_content:
  assumes "pathname rq = ''/_aleph'' @ relPath"
    and "startsWith relPath ''/''"
    and "endsWith relPath ''.js''"
    and "relPath \<noteq> ''/main.js''"
    and "resolve_module e a relPath = (Inr (Some i), a')"
    and "m = modules a' ! i"
    and "fp = (case hash m of None \<Rightarrow> sourceHash m
               | Some h \<Rightarrow> if h = [] then sourceHash m else h)"
    and "validator = md5 e (VERSION e @ fp)"
    and "transforms = (case codeInjects a (specifier m) of Some ts \<Rightarrow> ts | None \<Rightarrow> [])"
  shows "(getModuleJS a' m = None \<longrightarrow>
           handle e a rq =
             (Sent (if existsFile e (joinPath e [buildDir a, relPath])
                    then serve_file e rq (init_request a) (joinPath e [buildDir a, relPath])
                    else \<lparr>status = 404, headers = resp_headers (init_request a),
                           body = ''not found'', contentType = None\<rparr>), a'))
    \<and> (\<forall>content. getModuleJS a' m = Some content \<longrightarrow>
          req_headers rq ''If-None-Match'' = Some validator \<longrightarrow>
          handle e a rq =
            (Sent \<lparr>status = 304, headers = resp_headers (init_request a), body = [],
                   contentType = None\<rparr>, a'))
    \<and> (\<forall>content. getModuleJS a' m = Some content \<longrightarrow>
          req_headers rq ''If-None-Match'' \<noteq> Some validator \<longrightarrow>
          (\<exists>resp a''. handle e a rq = (Sent resp, a'') \<and> status resp = 200
             \<and> map_of (headers resp) ''ETag'' = Some validator
             \<and> body resp =
                 (if isDev a \<and> isHMRable a (specifier m)
                  then ''import.meta.hot = window.$createHotContext(''
                       @ json_quote (specifier m) @ '');'' @ [CHR 0x0A, CHR 0x0A]
                       @ fold (\<lambda>transform c. transform (specifier m) c) transforms
                           (if has_server_hooks m
                            then (case csrCode m of
                                    Some c \<Rightarrow> c
                                  | None \<Rightarrow> stripSsrCode e (specifier m) (textDecode e content))
                            else textDecode e content)
                       @ [CHR 0x0A, CHR 0x0A] @ ''import.meta.hot.accept();''
                  else content)))
    \<and> (\<forall>v. v \<noteq> VERSION e \<longrightarrow>
          v @ fp \<noteq> VERSION e @ fp \<and> etag_of (e\<lparr>VERSION := v\<rparr>) m = md5 e (v @ fp))
    \<and> (\<forall>n. (\<forall>s. length (md5 e s) = n) \<longrightarrow>
          (\<exists>v v'. v \<noteq> v' \<and> etag_of (e\<lparr>VERSION := v\<rparr>) m = etag_of (e\<lparr>VERSION := v'\<rparr>) m))"
proof -
  note cfg = resolve_module_config [OF assms(5)]
  have h: "handle e a rq =
      (case serve_module e a' rq (init_request a) i of
         (Some resp, a'') \<Rightarrow> (Sent resp, a'')
       | (None, a'') \<Rightarrow> (Sent (serve_build e a'' rq (init_request a) relPath), a''))"
    using handle_js_path [OF assms(1-4), of e a] assms(5) by simp
  have et: "etag_of e m = validator"
    unfolding assms(7,8) by (simp add: etag_of_def fingerprint_def split: option.splits)
  have fpm: "fingerprint m = fp"
    unfolding assms(7) by (simp add: fingerprint_def split: option.splits)
  have p1: "handle e a rq =
             (Sent (if existsFile e (joinPath e [buildDir a, relPath])
                    then serve_file e rq (init_request a) (joinPath e [buildDir a, relPath])
                    else \<lparr>status = 404, headers = resp_headers (init_request a),
                           body = ''not found'', contentType = None\<rparr>), a')"
    if "getModuleJS a' m = None"
  proof -
    have "serve_module e a' rq (init_request a) i = (None, a')"
      using that assms(6) by (simp add: serve_module_def Let_def)
    then show ?thesis
      unfolding h using cfg by (simp add: serve_build_def Let_def send_def set_status_def)
  qed
  have p2: "handle e a rq =
            (Sent \<lparr>status = 304, headers = resp_headers (init_request a), body = [],
                   contentType = None\<rparr>, a')"
    if c: "getModuleJS a' m = Some content"
      and "req_headers rq ''If-None-Match'' = Some validator" for content
  proof -
    have c': "getModuleJS a' (modules a' ! i) = Some content" using c assms(6) by simp
    show ?thesis
      using that(2) h serve_module_304 [OF c', of rq e "init_request a"] assms(6) et by simp
  qed
  have p3: "\<exists>resp a''. handle e a rq = (Sent resp, a'') \<and> status resp = 200
             \<and> map_of (headers resp) ''ETag'' = Some validator
             \<and> body resp =
                 (if isDev a \<and> isHMRable a (specifier m)
                  then ''import.meta.hot = window.$createHotContext(''
                       @ json_quote (specifier m) @ '');'' @ [CHR 0x0A, CHR 0x0A]
                       @ fold (\<lambda>transform c. transform (specifier m) c) transforms
                           (if has_server_hooks m
                            then (case csrCode m of
                                    Some c \<Rightarrow> c
                                  | None \<Rightarrow> stripSsrCode e (specifier m) (textDecode e content))
                            else textDecode e content)
                       @ [CHR 0x0A, CHR 0x0A] @ ''import.meta.hot.accept();''
                  else content)"
    if c: "getModuleJS a' m = Some content"
      and ne: "req_headers rq ''If-None-Match'' \<noteq> Some validator" for content
  proof -
    have c': "getModuleJS a' (modules a' ! i) = Some content" using c assms(6) by simp
    have ne': "req_headers rq ''If-None-Match'' \<noteq> Some (etag_of e (modules a' ! i))"
      using ne assms(6) et by simp
    have st: "resp_status (setHeader ''ETag'' t (init_request a)) = 200" for t
      by (simp add: setHeader_def resp_status_init)
    have ai: "apply_injects a' (specifier m) x
        = fold (\<lambda>transform c. transform (specifier m) c) transforms x" for x
      using cfg assms(9) by (simp add: apply_injects_def split: option.splits)
    have cc: "fst (client_code e a' i content) =
        (if has_server_hooks m
         then (case csrCode m of
                 Some c \<Rightarrow> c
               | None \<Rightarrow> stripSsrCode e (specifier m) (textDecode e content))
         else textDecode e content)"
      using assms(6) by (simp add: client_code_def Let_def split: option.splits)
    have hw: "hot_wrap sp x = ''import.meta.hot = window.$createHotContext(''
        @ json_quote sp @ '');'' @ [CHR 0x0A, CHR 0x0A] @ x
        @ [CHR 0x0A, CHR 0x0A] @ ''import.meta.hot.accept();''" for sp x
      by (simp add: hot_wrap_def newline_def)
    have mi: "modules a' ! i = m" using assms(6) by simp
    show ?thesis
      unfolding h serve_module_200 [OF c' ne', of "init_request a"] mi
      using cfg st et cc
      by (simp add: send_def map_of_setHeader ai hw)
  qed
  have p4: "v @ fp \<noteq> VERSION e @ fp \<and> etag_of (e\<lparr>VERSION := v\<rparr>) m = md5 e (v @ fp)"
    if "v \<noteq> VERSION e" for v
    using that fpm by (simp add: etag_of_def)
  have p5: "\<exists>v v'. v \<noteq> v' \<and> etag_of (e\<lparr>VERSION := v\<rparr>) m = etag_of (e\<lparr>VERSION := v'\<rparr>) m"
    if "\<forall>s. length (md5 e s) = n" for n
    using fixed_length_digest_collides [OF that, of fp] fpm by (simp add: etag_of_def)
  from p1 p2 p3 p4 p5 show ?thesis by blast
qed

text \<open>
  The theorem at \<open>/components/logo.js\<close>, requested with and without its validator, the
  validator of the same record under version \<open>0.3.1\<close>, and the same request when the
  digest is the first four characters of its input, padded with zeros: two versions
  then have one validator.
\<close>

theorem C4_validator_after_content_witness:
  \<open>handle ex_env ex_app
        ((ex_request ''/_aleph/components/logo.js'')
           \<lparr>req_headers := (\<lambda>name. if name = ''If-None-Match'' then Some ''0.3.077aa01'' else None)\<rparr>) =
       (Sent \<lparr>status = 304, headers = [(''Cache-Control'', ''max-age=0'')], body = [],
              contentType = None\<rparr>, ex_app)
   \<and> (\<exists>resp a''. handle ex_env ex_app (ex_request ''/_aleph/components/logo.js'') = (Sent resp, a'')
         \<and> status resp = 200
         \<and> map_of (headers resp) ''ETag'' = Some ''0.3.077aa01''
         \<and> body resp = ''import.meta.hot = window.$createHotContext("/components/logo.tsx");''
                    @ [CHR 0x0A, CHR 0x0A] @ ''export default Logo;'' @ [CHR 0x0A, CHR 0x0A]
                    @ ''import.meta.hot.accept();'')
   \<and> etag_of (ex_env\<lparr>VERSION := ''0.3.1''\<rparr>) ex_logo = ''0.3.177aa01''
   \<and> (\<exists>v v'. v \<noteq> v'
         \<and> etag_of (ex_env\<lparr>md5 := (\<lambda>s. take 4 (s @ ''0000'')), VERSION := v\<rparr>) ex_logo
           = etag_of (ex_env\<lparr>md5 := (\<lambda>s. take 4 (s @ ''0000'')), VERSION := v'\<rparr>) ex_logo)\<close>
proof -
  let ?e = "ex_env\<lparr>md5 := (\<lambda>s. take 4 (s @ ''0000''))\<rparr>"
  let ?rq = "(ex_request ''/_aleph/components/logo.js'')
           \<lparr>req_headers := (\<lambda>name. if name = ''If-None-Match'' then Some ''0.3.077aa01'' else None)\<rparr>"
  have h1: "pathname ?rq = ''/_aleph'' @ ''/components/logo.js''"
    by (simp add: ex_request_def)
  have g1: "pathname (ex_request ''/_aleph/components/logo.js'') = ''/_aleph'' @ ''/components/logo.js''"
    by (simp add: ex_request_def)
  have h2: "startsWith ''/components/logo.js'' ''/''" by simp
  have h3: "endsWith ''/components/logo.js'' ''.js''" by (simp add: endsWith_def)
  have h4: "''/components/logo.js'' \<noteq> ''/main.js''" by simp
  have h6: "ex_logo = modules ex_app ! 1" by (simp add: ex_app_def)
  have h7: "''77aa01'' = (case hash ex_logo of None \<Rightarrow> sourceHash ex_logo
               | Some h \<Rightarrow> if h = [] then sourceHash ex_logo else h)"
    by (simp add: ex_logo_def)
  have h8: "''0.3.077aa01'' = md5 ex_env (VERSION ex_env @ ''77aa01'')"
    by (simp add: ex_env_def)
  have h9: "[\<lambda>sp c. c @ '';''] =
      (case codeInjects ex_app (specifier ex_logo) of Some ts \<Rightarrow> ts | None \<Rightarrow> [])"
    by (simp add: ex_app_def)
  have c: "getModuleJS ex_app ex_logo = Some ''export default Logo''"
    by (simp add: ex_app_def ex_logo_def)
  have inm: "req_headers ?rq ''If-None-Match'' = Some ''0.3.077aa01''" by simp
  have nm: "req_headers (ex_request ''/_aleph/components/logo.js'') ''If-None-Match''
      \<noteq> Some ''0.3.077aa01''"
    by (simp add: ex_request_def)
  have v: "''0.3.1'' \<noteq> VERSION ex_env" by (simp add: ex_env_def)
  have ev: "isDev ex_app \<and> isHMRable ex_app (specifier ex_logo)" "\<not> has_server_hooks ex_logo"
    \<open>json_quote (specifier ex_logo) = ''"/components/logo.tsx"''\<close>
    "textDecode ex_env ''export default Logo'' = ''export default Logo''"
    "md5 ex_env (''0.3.1'' @ ''77aa01'') = ''0.3.177aa01''"
    by (simp_all add: ex_app_def ex_logo_def ex_env_def endsWith_def has_server_hooks_def
        json_quote_def json_escape_def)
  note c4a = C4_validator_after_content [OF h1 h2 h3 h4 ex_resolve_logo h6 h7 h8 h9]
  note c4b = C4_validator_after_content [OF g1 h2 h3 h4 ex_resolve_logo h6 h7 h8 h9]
  from c4a [THEN conjunct2, THEN conjunct1, rule_format, OF c inm]
  have a: "handle ex_env ex_app ?rq =
      (Sent \<lparr>status = 304, headers = resp_headers (init_request ex_app), body = [],
             contentType = None\<rparr>, ex_app)" .
  from c4b [THEN conjunct2, THEN conjunct2, THEN conjunct1, rule_format, OF c nm]
  have b: \<open>\<exists>resp a''. handle ex_env ex_app (ex_request ''/_aleph/components/logo.js'') = (Sent resp, a'')
         \<and> status resp = 200
         \<and> map_of (headers resp) ''ETag'' = Some ''0.3.077aa01''
         \<and> body resp = ''import.meta.hot = window.$createHotContext("/components/logo.tsx");''
                    @ [CHR 0x0A, CHR 0x0A] @ ''export default Logo;'' @ [CHR 0x0A, CHR 0x0A]
                    @ ''import.meta.hot.accept();''\<close>
    by (simp add: ev)
  from c4a [THEN conjunct2, THEN conjunct2, THEN conjunct2, THEN conjunct1, rule_format, OF v]
  have d: "etag_of (ex_env\<lparr>VERSION := ''0.3.1''\<rparr>) ex_logo = ''0.3.177aa01''"
    by (simp add: ex_env_def)
  have rs: "resolve_module ?e ex_app ''/components/logo.js'' = (Inr (Some 1), ex_app)"
    by (simp add: resolve_module_def ex_app_def ex_logo_def ex_index_def ex_icon_def)
  have ar: "min k 4 + (4 - k) = 4" for k :: nat by arith
  have fl: "\<forall>s. length (md5 ?e s) = 4" by (simp add: ar)
  note c4c = C4_validator_after_content [OF g1 h2 h3 h4 rs h6 h7 refl h9]
  from c4c [THEN conjunct2, THEN conjunct2, THEN conjunct2, THEN conjunct2, THEN spec, THEN mp, OF fl]
  have f: "\<exists>v v'. v \<noteq> v'
         \<and> etag_of (ex_env\<lparr>md5 := (\<lambda>s. take 4 (s @ ''0000'')), VERSION := v\<rparr>) ex_logo
           = etag_of (ex_env\<lparr>md5 := (\<lambda>s. take 4 (s @ ''0000'')), VERSION := v'\<rparr>) ex_logo"
    by simp
  from a have a': "handle ex_env ex_app ?rq =
      (Sent \<lparr>status = 304, headers = [(''Cache-Control'', ''max-age=0'')], body = [],
             contentType = None\<rparr>, ex_app)"
    by (simp only: ex_init request_ctx.simps)
  from a' b d f show ?thesis by (intro conjI)
qed

text \<open>
  Claim C4 as stated fails: the record of \<open>/components/icon.js\<close> has no compiled
  content, and a request that carries its validator is answered 404, not 304.
\<close>

theorem C4_counterexample:
  "findModule (\<lambda>m. jsFile m = ''/components/icon.js'') (modules ex_app) = Some (2, ex_icon)
   \<and> etag_of ex_env ex_icon = ''0.3.05e0c11''
   \<and> handle ex_env ex_app
        ((ex_request ''/_aleph/components/icon.js'')
           \<lparr>req_headers := (\<lambda>name. if name = ''If-None-Match'' then Some ''0.3.05e0c11'' else None)\<rparr>) =
       (Sent \<lparr>status = 404, headers = [(''Cache-Control'', ''max-age=0'')], body = ''not found'',
              contentType = None\<rparr>, ex_app)"
  by (simp add: ex_eval)

subsection \<open>The client-only variant\<close>




subsection \<open>Update messages\<close>

text \<open>
  Claim C6, as the code has it. On an open channel reached from the accepted connection
  by any inputs, after a \<open>hotAccept\<close> message naming a specifier with a registered
  module, every firing of the modify event for that specifier sends one message for each
  listener the specifier then has on the channel, one more than before the message:
  exactly one message per firing when the specifier had no listener before. The message
  is the object of the event payload with \<open>type\<close> set to \<open>update\<close>, \<open>specifier\<close> to the
  specifier and \<open>updateUrl\<close> to the cleaned path of the base path, \<open>/_aleph/\<close>, the
  specifier without its recognized extension, and \<open>.js\<close>.
\<close>

theorem C6_update_per_listener:
  assumes "ch = hmr_run e a parse inps hmr_open"
    and "\<not> closed ch"
    and "msg \<noteq> []"
    and "parse msg = Some data"
    and "get_prop data ''type'' = Some (JStr ''hotAccept'')"
    and "get_prop data ''specifier'' = Some (JStr sp)"
    and "sp \<noteq> []"
    and "getModule a sp = Some md"
    and "ch' = hmr_step e a parse (Frame (WsText msg)) ch"
    and "url = cleanPath e (basePath a @ ''/_aleph/'' @ trimBuiltinModuleExts e sp @ ''.js'')"
    and "n = length (listeners ch (''modify-'' @ sp))"
  shows "outbox ch' = outbox ch
    \<and> (\<forall>payloads.
          outbox (hmr_run e a parse (map (\<lambda>p. Watch (EvModify sp p)) payloads) ch')
            = outbox ch @ concat (map (\<lambda>p. replicate (Suc n)
                (stringify (JObj (AList.update ''updateUrl'' (JStr url)
                   (AList.update ''specifier'' (JStr sp)
                     (AList.update ''type'' (JStr ''update'') p)))))) payloads))
    \<and> (n = 0 \<longrightarrow> (\<forall>payloads.
          outbox (hmr_run e a parse (map (\<lambda>p. Watch (EvModify sp p)) payloads) ch')
            = outbox ch @ map (\<lambda>p.
                stringify (JObj (AList.update ''updateUrl'' (JStr url)
                   (AList.update ''specifier'' (JStr sp)
                     (AList.update ''type'' (JStr ''update'') p))))) payloads))
    \<and> AList.update ''updateUrl'' (JStr url)
         (AList.update ''specifier'' (JStr sp) (AList.update ''type'' (JStr ''update'') [])) =
         [(''type'', JStr ''update''), (''specifier'', JStr sp), (''updateUrl'', JStr url)]"
proof -
  have inv: "channel_inv ch"
    unfolding assms(1) by (rule channel_inv_run [OF channel_inv_open])
  have am: "accepted_module a parse msg = Some md"
    using assms(4-8) by (simp add: accepted_module_def accepted_specifier_def)
  have sm: "specifier md = sp" by (rule getModule_specifier [OF assms(8)])
  have c: "ch' = watcher_on (''modify-'' @ sp) (OnModify sp) ch"
    using assms(2,3,9) am sm by (simp add: on_text_def)
  have p1: "outbox ch' = outbox ch" unfolding c by (simp add: watcher_on_def)
  have l: "length (listeners ch' (''modify-'' @ sp)) = Suc n"
    unfolding c assms(11) by (simp add: watcher_on_def)
  have o: "\<not> closed ch'" unfolding c using assms(2) by (simp add: watcher_on_def)
  have inv': "channel_inv ch'"
    unfolding assms(9) by (rule channel_inv_step [OF inv])
  then have al: "\<forall>l \<in> set (listeners ch' (''modify-'' @ sp)). l = OnModify sp"
    by (simp add: channel_inv_def)
  have um: "update_message e (basePath a) sp p =
      JObj (AList.update ''updateUrl'' (JStr url)
             (AList.update ''specifier'' (JStr sp)
               (AList.update ''type'' (JStr ''update'') p)))" for p
    by (simp add: update_message_def set_prop_def update_url_def assms(10))
  have p2: "outbox (hmr_run e a parse (map (\<lambda>p. Watch (EvModify sp p)) payloads) ch')
            = outbox ch @ concat (map (\<lambda>p. replicate (Suc n)
                (stringify (JObj (AList.update ''updateUrl'' (JStr url)
                   (AList.update ''specifier'' (JStr sp)
                     (AList.update ''type'' (JStr ''update'') p)))))) payloads)"
    for payloads
    unfolding fire_each_listener [OF o al] l um using p1 by simp
  have p3: "outbox (hmr_run e a parse (map (\<lambda>p. Watch (EvModify sp p)) payloads) ch')
            = outbox ch @ map (\<lambda>p.
                stringify (JObj (AList.update ''updateUrl'' (JStr url)
                   (AList.update ''specifier'' (JStr sp)
                     (AList.update ''type'' (JStr ''update'') p))))) payloads"
    if "n = 0" for payloads
  proof -
    have "concat (map (\<lambda>p. [f p]) ps) = map f ps" for f :: "'x \<Rightarrow> 'y" and ps
      by (induction ps) simp_all
    then show ?thesis unfolding p2 using that by simp
  qed
  have p4: "AList.update ''updateUrl'' (JStr url)
         (AList.update ''specifier'' (JStr sp) (AList.update ''type'' (JStr ''update'') [])) =
         [(''type'', JStr ''update''), (''specifier'', JStr sp), (''updateUrl'', JStr url)]"
    by simp
  from p1 p2 p3 p4 show ?thesis by blast
qed

text \<open>
  The theorem on a fresh channel at \<open>/pages/index.tsx\<close> with base path \<open>/\<close>: each of
  two firings sends one message, with the address \<open>/_aleph/pages/index.js\<close>.
\<close>

theorem C6_update_per_listener_witness:
  \<open>outbox (hmr_run ex_env ex_app ex_parse
      [Watch (EvModify ''/pages/index.tsx'' []),
       Watch (EvModify ''/pages/index.tsx'' [(''type'', JStr ''modify'')])]
      (hmr_step ex_env ex_app ex_parse (Frame (WsText ex_accept)) hmr_open)) =
    [''{"type":"update","specifier":"/pages/index.tsx","updateUrl":"/_aleph/pages/index.js"}'',
     ''{"type":"update","specifier":"/pages/index.tsx","updateUrl":"/_aleph/pages/index.js"}'']\<close>
proof -
  have o: "\<not> closed (hmr_run ex_env ex_app ex_parse [] hmr_open)"
    by (simp add: hmr_run_def hmr_open_def)
  have r: "hmr_run ex_env ex_app ex_parse [] hmr_open = hmr_open"
    by (simp add: hmr_run_def)
  have u: "''/_aleph/pages/index.js'' =
      cleanPath ex_env (basePath ex_app @ ''/_aleph/'' @ trimBuiltinModuleExts ex_env ''/pages/index.tsx'' @ ''.js'')"
    by (simp add: hmr_eval)
  have n: "0 = length (listeners (hmr_run ex_env ex_app ex_parse [] hmr_open)
      (''modify-'' @ ''/pages/index.tsx''))"
    by (simp add: hmr_run_def hmr_open_def)
  have b: "outbox hmr_open = []" by (simp add: hmr_open_def)
  have t: \<open>stringify (JObj [(''type'', JStr ''update''), (''specifier'', JStr ''/pages/index.tsx''),
      (''updateUrl'', JStr ''/_aleph/pages/index.js'')]) =
    ''{"type":"update","specifier":"/pages/index.tsx","updateUrl":"/_aleph/pages/index.js"}''\<close>
    by (simp add: json_quote_def json_escape_def)
  note c6 = C6_update_per_listener [where parse = ex_parse and msg = ex_accept and e = ex_env,
      OF refl o ex_accept_facts refl u n]
  from c6 [THEN conjunct2, THEN conjunct2, THEN conjunct1, rule_format, OF refl,
      of "[[], [(''type'', JStr ''modify'')]]"]
  show ?thesis
    unfolding r by (simp add: b json_quote_def json_escape_def)
qed

text \<open>
  Claim C6 as stated fails: after a second \<open>hotAccept\<close> for the same specifier, each of
  two firings sends two messages.
\<close>

theorem C6_counterexample:
  \<open>outbox (hmr_run ex_env ex_app ex_parse
      [Frame (WsText ex_accept), Frame (WsText ex_accept)] hmr_open) = []
   \<and> outbox (hmr_run ex_env ex_app ex_parse
      [Frame (WsText ex_accept), Frame (WsText ex_accept),
       Watch (EvModify ''/pages/index.tsx'' []),
       Watch (EvModify ''/pages/index.tsx'' [])] hmr_open) =
    [''{"type":"update","specifier":"/pages/index.tsx","updateUrl":"/_aleph/pages/index.js"}'',
     ''{"type":"update","specifier":"/pages/index.tsx","updateUrl":"/_aleph/pages/index.js"}'',
     ''{"type":"update","specifier":"/pages/index.tsx","updateUrl":"/_aleph/pages/index.js"}'',
     ''{"type":"update","specifier":"/pages/index.tsx","updateUrl":"/_aleph/pages/index.js"}'']\<close>
  by (simp add: hmr_eval)

subsection \<open>Removal of a module\<close>



subsection \<open>Public files\<close>

text \<open>
  Claim C8. For a request that reaches the public files (its path is not \<open>/_hmr\<close> and
  not under \<open>/_aleph/\<close>) and names an existing file of the public root, the validator is
  the modification time of the file, the current time when it has none. When
  \<open>If-Modified-Since\<close> equals the validator the response is 304 with an empty body;
  otherwise it is 200 with the contents of the file, \<open>Last-Modified\<close> set to the
  validator and the content type \<open>getContentType\<close> gives for the file path.
\<close>

theorem C8_public_file:
  assumes "pathname rq \<noteq> ''/_hmr''"
    and "\<not> startsWith (pathname rq) ''/_aleph/''"
    and "filePath = joinPath e [workingDir a, ''public'', pathname rq]"
    and "existsFile e filePath"
    and "validator = (case mtime e filePath of Some t \<Rightarrow> t | None \<Rightarrow> now e)"
  shows "(req_headers rq ''If-Modified-Since'' = Some validator \<longrightarrow>
           handle e a rq =
             (Sent \<lparr>status = 304, headers = resp_headers (init_request a), body = [],
                    contentType = None\<rparr>, a))
    \<and> (req_headers rq ''If-Modified-Since'' \<noteq> Some validator \<longrightarrow>
          (\<exists>resp. handle e a rq = (Sent resp, a) \<and> status resp = 200
             \<and> body resp = readFile e filePath
             \<and> map_of (headers resp) ''Last-Modified'' = Some validator
             \<and> contentType resp = Some (getContentType e filePath)))"
proof -
  have h: "handle e a rq = (Sent (serve_file e rq (init_request a) filePath), a)"
    using assms(1-4) by (simp add: handle_def Let_def)
  have p1: "handle e a rq =
             (Sent \<lparr>status = 304, headers = resp_headers (init_request a), body = [],
                    contentType = None\<rparr>, a)"
    if "req_headers rq ''If-Modified-Since'' = Some validator"
    using that assms(5) unfolding h
    by (simp add: serve_file_def Let_def send_def set_status_def)
  have p2: "\<exists>resp. handle e a rq = (Sent resp, a) \<and> status resp = 200
             \<and> body resp = readFile e filePath
             \<and> map_of (headers resp) ''Last-Modified'' = Some validator
             \<and> contentType resp = Some (getContentType e filePath)"
    if "req_headers rq ''If-Modified-Since'' \<noteq> Some validator"
  proof -
    have ne: "Some validator \<noteq> req_headers rq ''If-Modified-Since''"
      using that by auto
    have st: "resp_status (setHeader ''Last-Modified'' validator (init_request a)) = 200"
      by (simp add: setHeader_def resp_status_init)
    show ?thesis
      using ne assms(5) st unfolding h
      by (simp add: serve_file_def Let_def send_def map_of_setHeader)
  qed
  from p1 p2 show ?thesis by blast
qed

text \<open>The theorem at \<open>/logo.png\<close>, requested without and with its validator.\<close>

theorem C8_public_file_witness:
  "handle ex_env ex_app (ex_request ''/logo.png'') =
     (Sent \<lparr>status = 200,
            headers = [(''Cache-Control'', ''max-age=0''),
                       (''Last-Modified'', ''Mon, 02 Nov 2026 10:00:00 GMT'')],
            body = ''bytes of /app/public/logo.png'',
            contentType = Some ''image/png''\<rparr>, ex_app)
   \<and> handle ex_env ex_app
        ((ex_request ''/logo.png'')
           \<lparr>req_headers := (\<lambda>name. if name = ''If-Modified-Since''
                                 then Some ''Mon, 02 Nov 2026 10:00:00 GMT'' else None)\<rparr>) =
     (Sent \<lparr>status = 304, headers = [(''Cache-Control'', ''max-age=0'')], body = [],
            contentType = None\<rparr>, ex_app)"
proof -
  let ?rq = "(ex_request ''/logo.png'')
           \<lparr>req_headers := (\<lambda>name. if name = ''If-Modified-Since''
                                 then Some ''Mon, 02 Nov 2026 10:00:00 GMT'' else None)\<rparr>"
  have h1: "pathname ?rq \<noteq> ''/_hmr''" by (simp add: ex_request_def)
  have h2: "\<not> startsWith (pathname ?rq) ''/_aleph/''" by (simp add: ex_request_def)
  have h3: "''/app/public/logo.png'' = joinPath ex_env [workingDir ex_app, ''public'', pathname ?rq]"
    by (simp add: ex_env_def ex_app_def ex_request_def clean_path_def)
  have h4: "existsFile ex_env ''/app/public/logo.png''"
    by (simp add: ex_env_def ex_files_def)
  have h5: "''Mon, 02 Nov 2026 10:00:00 GMT'' =
      (case mtime ex_env ''/app/public/logo.png'' of Some t \<Rightarrow> t | None \<Rightarrow> now ex_env)"
    by (simp add: ex_env_def)
  have i: "req_headers ?rq ''If-Modified-Since'' = Some ''Mon, 02 Nov 2026 10:00:00 GMT''"
    by simp
  from C8_public_file [OF h1 h2 h3 h4 h5, THEN conjunct1, rule_format, OF i]
  have a: "handle ex_env ex_app ?rq =
     (Sent \<lparr>status = 304, headers = resp_headers (init_request ex_app), body = [],
            contentType = None\<rparr>, ex_app)" .
  have b: "handle ex_env ex_app (ex_request ''/logo.png'') =
     (Sent \<lparr>status = 200,
            headers = [(''Cache-Control'', ''max-age=0''),
                       (''Last-Modified'', ''Mon, 02 Nov 2026 10:00:00 GMT'')],
            body = ''bytes of /app/public/logo.png'',
            contentType = Some ''image/png''\<rparr>, ex_app)"
    by (simp add: ex_eval)
  from a b show ?thesis by (simp add: ex_init)
qed

subsection \<open>API errors\<close>




subsection \<open>A module record without content\<close>

text \<open>
  Claim C10, as the code has it. For a build-output JS path that matches a module record
  whose compiled content is \<open>null\<close>, the handler does not throw: it falls through to the
  build directory, serves the file of that path when there is one, and otherwise responds
  404 with the plain body \<open>not found\<close> and no content type. Content of length zero is
  content: the module is then served with status 200, or 304 on a matching validator.
\<close>

theorem C10_null_content_falls_through:
  assumes "pathname rq = ''/_aleph'' @ relPath"
    and "startsWith relPath ''/''"
    and "endsWith relPath ''.js''"
    and "relPath \<noteq> ''/main.js''"
    and "findModule (\<lambda>m. jsFile m = relPath) (modules a) = Some (i, m)"
  shows "(getModuleJS a m = None \<longrightarrow>
           \<not> existsFile e (joinPath e [buildDir a, relPath]) \<longrightarrow>
           handle e a rq =
             (Sent \<lparr>status = 404, headers = resp_headers (init_request a), body = ''not found'',
                    contentType = None\<rparr>, a))
    \<and> (getModuleJS a m = None \<longrightarrow>
          existsFile e (joinPath e [buildDir a, relPath]) \<longrightarrow>
          handle e a rq =
            (Sent (serve_file e rq (init_request a) (joinPath e [buildDir a, relPath])), a))
    \<and> (\<forall>content. getModuleJS a m = Some content \<longrightarrow>
          (\<exists>resp a'. handle e a rq = (Sent resp, a')
             \<and> (status resp = 304 \<or> status resp = 200)))"
proof -
  have r: "resolve_module e a relPath = (Inr (Some i), a)"
    by (rule resolve_module_found [OF assms(5)])
  have mi: "modules a ! i = m"
    using findModule_Some [OF assms(5)] by simp
  note hj = handle_js_path [OF assms(1-4), of e a]
  have h: "handle e a rq = (Sent (serve_build e a rq (init_request a) relPath), a)"
    if "getModuleJS a m = None"
  proof -
    have "serve_module e a rq (init_request a) i = (None, a)"
      using that mi by (simp add: serve_module_def Let_def)
    then show ?thesis using hj r by simp
  qed
  have p1: "handle e a rq =
             (Sent \<lparr>status = 404, headers = resp_headers (init_request a), body = ''not found'',
                    contentType = None\<rparr>, a)"
    if "getModuleJS a m = None" "\<not> existsFile e (joinPath e [buildDir a, relPath])"
    unfolding h [OF that(1)] using that(2)
    by (simp add: serve_build_def Let_def send_def set_status_def)
  have p2: "handle e a rq =
            (Sent (serve_file e rq (init_request a) (joinPath e [buildDir a, relPath])), a)"
    if "getModuleJS a m = None" "existsFile e (joinPath e [buildDir a, relPath])"
    unfolding h [OF that(1)] using that(2) by (simp add: serve_build_def Let_def)
  have p3: "\<exists>resp a'. handle e a rq = (Sent resp, a')
             \<and> (status resp = 304 \<or> status resp = 200)"
    if c: "getModuleJS a m = Some content" for content
  proof (cases "req_headers rq ''If-None-Match'' = Some (etag_of e (modules a ! i))")
    case True
    have c': "getModuleJS a (modules a ! i) = Some content" using c mi by simp
    show ?thesis
      using hj r serve_module_304 [OF c' True, of "init_request a"] by simp
  next
    case False
    have c': "getModuleJS a (modules a ! i) = Some content" using c mi by simp
    have st: "resp_status (setHeader ''ETag'' t (init_request a)) = 200" for t
      by (simp add: setHeader_def resp_status_init)
    show ?thesis
      using hj r serve_module_200 [OF c' False, of "init_request a"] st
      by (simp add: send_def)
  qed
  from p1 p2 p3 show ?thesis by blast
qed

text \<open>The theorem at \<open>/components/icon.js\<close>, a record without compiled content.\<close>

theorem C10_null_content_falls_through_witness:
  "handle ex_env ex_app (ex_request ''/_aleph/components/icon.js'') =
     (Sent \<lparr>status = 404, headers = [(''Cache-Control'', ''max-age=0'')], body = ''not found'',
            contentType = None\<rparr>, ex_app)"
proof -
  have h1: "pathname (ex_request ''/_aleph/components/icon.js'') = ''/_aleph'' @ ''/components/icon.js''"
    by (simp add: ex_request_def)
  have h2: "startsWith ''/components/icon.js'' ''/''" by simp
  have h3: "endsWith ''/components/icon.js'' ''.js''" by (simp add: endsWith_def)
  have h4: "''/components/icon.js'' \<noteq> ''/main.js''" by simp
  have h6: "getModuleJS ex_app ex_icon = None" by (simp add: ex_app_def ex_icon_def)
  have nf: "\<not> existsFile ex_env (joinPath ex_env [buildDir ex_app, ''/components/icon.js''])"
    by (simp add: ex_env_def ex_app_def ex_files_def clean_path_def)
  from C10_null_content_falls_through [OF h1 h2 h3 h4 ex_find_icon, THEN conjunct1,
      rule_format, OF h6 nf]
  show ?thesis by (simp add: ex_init)
qed

text \<open>
  Claim C10 as stated fails for empty content: with a buffer of length zero for
  \<open>/components/icon.js\<close> the handler does not fall through, it answers 200 with the
  template around the (empty) code after the transform of the project.
\<close>

theorem C10_counterexample:
  \<open>findModule (\<lambda>m. jsFile m = ''/components/icon.js'') (modules ex_app_blank) = Some (2, ex_icon)
   \<and> getModuleJS ex_app_blank ex_icon = Some []
   \<and> handle ex_env ex_app_blank (ex_request ''/_aleph/components/icon.js'') =
     (Sent \<lparr>status = 200,
            headers = [(''Cache-Control'', ''max-age=0''), (''ETag'', ''0.3.05e0c11'')],
            body = ''import.meta.hot = window.$createHotContext("/components/icon.tsx");''
                   @ [CHR 0x0A, CHR 0x0A] @ '';'' @ [CHR 0x0A, CHR 0x0A]
                   @ ''import.meta.hot.accept();'',
            contentType = Some ''application/javascript; charset=utf-8''\<rparr>, ex_app_blank)\<close>
  by (simp add: ex_eval ex_app_blank_def)

end
